theory Spec2Isabelle
  imports Complex_Main "HOL-Library.Log_Nat"
begin

section \<open>Numbers\<close>

text \<open>
  A JavaScript \<^verbatim>\<open>Number\<close> is an IEEE-754 double. \<open>Fin r\<close> is the finite double of
  value \<open>r\<close>; the two infinities and NaN are values of their own. Zero carries no sign:
  JSON prints \<open>-0\<close> as \<open>0\<close>, both zeros are falsy and \<^verbatim>\<open>toFixed\<close> prints both alike, and
  the handlers never divide by a computed value, so no response tells them apart.
  The theorems below quantify over every \<open>r\<close>, hence over every double.
\<close>

datatype number = Fin rat | PosInf | NegInf | NaN

text \<open>Powers of two with an integer exponent.\<close>

definition pow2 :: "int \<Rightarrow> rat" where
  "pow2 e = (if 0 \<le> e then 2 ^ nat e else 1 / 2 ^ nat (- e))"

text \<open>
  The binary exponent of a positive rational, \<open>\<lfloor>log\<^sub>2 x\<rfloor>\<close>, from the number of bits of
  \<open>\<lfloor>x\<rfloor>\<close> (for \<open>x \<ge> 1\<close>) or of \<open>\<lceil>1 / x\<rceil> - 1\<close> (for \<open>x < 1\<close>).
\<close>

definition ilog2 :: "rat \<Rightarrow> int" where
  "ilog2 x = (if 1 \<le> x then bitlen \<lfloor>x\<rfloor> - 1 else - bitlen (\<lceil>1 / x\<rceil> - 1))"

text \<open>The nearest integer, the even one of two.\<close>

definition round_even :: "rat \<Rightarrow> int" where
  "round_even r =
     (let f = \<lfloor>r\<rfloor>; d = r - of_int f
      in if d < 1 / 2 then f else if 1 / 2 < d then f + 1 else if even f then f else f + 1)"

text \<open>
  Rounding of an exact result to a double (round to nearest, ties to even): 53
  significant bits, but no exponent below \<open>-1022\<close> (the subnormal numbers are multiples
  of \<open>2\<^sup>-\<^sup>1\<^sup>0\<^sup>7\<^sup>4\<close>), and a result that reaches \<open>2\<^sup>1\<^sup>0\<^sup>2\<^sup>4\<close> overflows to an infinity.
\<close>

definition rnd :: "rat \<Rightarrow> number" where
  "rnd x =
     (if x = 0 then Fin 0
      else let a = \<bar>x\<bar>;
               e = max (ilog2 a) (- 1022);
               q = pow2 (e - 52);
               y = of_int (round_even (a / q)) * q
           in if pow2 1024 \<le> y then (if 0 < x then PosInf else NegInf)
              else Fin (if 0 < x then y else - y))"

text \<open>The operator \<^verbatim>\<open>+\<close> on numbers.\<close>

fun fadd :: "number \<Rightarrow> number \<Rightarrow> number" where
  "fadd (Fin a) (Fin b) = rnd (a + b)"
| "fadd NaN y = NaN"
| "fadd x NaN = NaN"
| "fadd PosInf NegInf = NaN"
| "fadd NegInf PosInf = NaN"
| "fadd PosInf y = PosInf"
| "fadd NegInf y = NegInf"
| "fadd x PosInf = PosInf"
| "fadd x NegInf = NegInf"

text \<open>\<^verbatim>\<open>x * 12\<close> and \<^verbatim>\<open>x / 12\<close>, the only product and the only quotient of the handlers.\<close>

fun mul12 :: "number \<Rightarrow> number" where
  "mul12 (Fin a) = rnd (a * 12)"
| "mul12 x = x"

fun div12 :: "number \<Rightarrow> number" where
  "div12 (Fin a) = rnd (a / 12)"
| "div12 x = x"

text \<open>A falsy number is a zero or NaN. The comparison \<^verbatim>\<open>x >= 0\<close> is false of NaN.\<close>

fun falsy :: "number \<Rightarrow> bool" where
  "falsy (Fin r) = (r = 0)"
| "falsy NaN = True"
| "falsy PosInf = False"
| "falsy NegInf = False"

fun ge0 :: "number \<Rightarrow> bool" where
  "ge0 (Fin r) = (0 \<le> r)"
| "ge0 PosInf = True"
| "ge0 NegInf = False"
| "ge0 NaN = False"

section \<open>Data model (models/Subscription.js)\<close>

text \<open>
  A document of the \<^verbatim>\<open>Subscription\<close> collection, with the paths of the Mongoose schema.
  An ObjectId is a natural number and a \<^verbatim>\<open>Date\<close> is its time value (milliseconds since
  the epoch). The paths \<^verbatim>\<open>renewalDate\<close> and \<^verbatim>\<open>notes\<close> (the field \<open>notes'\<close>) have no
  default and are not required, so they may be undefined (\<open>None\<close>).
\<close>

type_synonym object_id = nat
type_synonym date = int

record subscription =
  ident :: object_id
  user :: object_id
  name :: string
  cost :: number
  billingCycle :: string
  renewalDate :: "date option"
  category :: string
  color :: string
  isActive :: bool
  notes' :: "string option"
  createdAt :: date
  updatedAt :: date

text \<open>The virtual \<^verbatim>\<open>monthlyCost\<close> of the schema.\<close>

definition monthlyCost :: "subscription \<Rightarrow> number" where
  "monthlyCost this =
     (if billingCycle this = ''yearly'' then div12 (cost this) else cost this)"

text \<open>The hook \<^verbatim>\<open>pre('save')\<close>: \<^verbatim>\<open>this.updatedAt = Date.now()\<close>.\<close>

definition pre_save :: "date \<Rightarrow> subscription \<Rightarrow> subscription" where
  "pre_save now this = this\<lparr>updatedAt := now\<rparr>"

section \<open>The collection and its queries\<close>

text \<open>
  The collection is the list of its documents in natural order. \<^verbatim>\<open>find\<close> keeps the
  documents that match, \<^verbatim>\<open>findOne\<close> returns the first match, and
  \<^verbatim>\<open>findOneAndUpdate\<close> (with \<^verbatim>\<open>new: true\<close>) rewrites the first match in place and
  returns the rewritten document. Identifiers are well-formed ObjectIds, and the store
  itself does not fail: of the errors the handlers catch and answer with 500, the
  validation errors of the schema are modelled, a lost connection or a cast error is not.
\<close>

type_synonym collection = "subscription list"

definition find_docs :: "(subscription \<Rightarrow> bool) \<Rightarrow> collection \<Rightarrow> subscription list" where
  "find_docs q db = filter q db"

fun findOne :: "(subscription \<Rightarrow> bool) \<Rightarrow> collection \<Rightarrow> subscription option" where
  "findOne q [] = None"
| "findOne q (d # db) = (if q d then Some d else findOne q db)"

fun findOneAndUpdate ::
  "(subscription \<Rightarrow> bool) \<Rightarrow> (subscription \<Rightarrow> subscription) \<Rightarrow> collection
     \<Rightarrow> subscription option \<times> collection" where
  "findOneAndUpdate q u [] = (None, [])"
| "findOneAndUpdate q u (d # db) =
     (if q d then (Some (u d), u d # db)
      else (case findOneAndUpdate q u db of (r, db') \<Rightarrow> (r, d # db')))"

section \<open>Responses\<close>

record totals =
  monthly :: number
  yearly :: number

text \<open>An entry of \<^verbatim>\<open>stats.upcomingRenewals\<close>.\<close>

record renewal =
  r_id :: object_id
  r_name :: string
  r_renewalDate :: "date option"
  r_cost :: number
  r_billingCycle :: string

record stats =
  totalSubscriptions :: nat
  categoryBreakdown :: "string \<rightharpoonup> number"
  upcomingRenewals :: "renewal list"

text \<open>An error of express-validator's \<^verbatim>\<open>errors.array()\<close>: the field and the message.\<close>

record verror =
  path :: string
  msg :: string

text \<open>
  The JSON bodies the handlers send, one constructor per shape:
  \<^item> \<open>Subscriptions\<close>: \<^verbatim>\<open>{success: true, count, subscriptions, totals}\<close>;
  \<^item> \<open>OneSubscription\<close>: \<^verbatim>\<open>{success: true, subscription}\<close>;
  \<^item> \<open>Saved\<close>: \<^verbatim>\<open>{success: true, message, subscription}\<close>;
  \<^item> \<open>Message\<close>: \<^verbatim>\<open>{success: true, message}\<close>;
  \<^item> \<open>Statistics\<close>: \<^verbatim>\<open>{success: true, stats}\<close>;
  \<^item> \<open>Failure\<close>: \<^verbatim>\<open>{success: false, message}\<close>;
  \<^item> \<open>Invalid\<close>: \<^verbatim>\<open>{success: false, errors}\<close>.
  A response is the HTTP status with the body. Numbers are kept as numbers (JSON
  prints an infinity and NaN as \<^verbatim>\<open>null\<close>).
\<close>

datatype payload =
    Subscriptions nat "subscription list" totals
  | OneSubscription subscription
  | Saved string subscription
  | Message string
  | Statistics stats
  | Failure string
  | Invalid "verror list"

type_synonym response = "nat \<times> payload"

section \<open>GET /api/subscriptions\<close>

text \<open>
  The reducer of the totals:
  \<^verbatim>\<open>acc.monthly += monthlyCost; acc.yearly += monthlyCost * 12\<close>, where
  \<^verbatim>\<open>monthlyCost\<close> is computed inline from the billing cycle.
\<close>

definition totals_step :: "totals \<Rightarrow> subscription \<Rightarrow> totals" where
  "totals_step acc sub =
     (let mc = (if billingCycle sub = ''yearly'' then div12 (cost sub) else cost sub);
          acc1 = acc\<lparr>monthly := fadd (monthly acc) mc\<rparr>
      in acc1\<lparr>yearly := fadd (yearly acc1) (mul12 mc)\<rparr>)"

text \<open>
  \<^verbatim>\<open>parseFloat(x.toFixed(2))\<close>. On a finite number below \<open>10\<^sup>2\<^sup>1\<close> in absolute value,
  \<^verbatim>\<open>toFixed\<close> prints the sign and the integer \<open>n\<close> with \<open>n / 100\<close> nearest to the exact
  absolute value, the larger one of two, and \<^verbatim>\<open>parseFloat\<close> reads the decimal back as the
  nearest double. Any other number is printed in full and read back as it was.
\<close>

fun toFixed2 :: "number \<Rightarrow> number" where
  "toFixed2 (Fin x) =
     (if 10 ^ 21 \<le> \<bar>x\<bar> then Fin x
      else rnd ((if x < 0 then - 1 else 1) * of_int \<lfloor>\<bar>x\<bar> * 100 + 1 / 2\<rfloor> / 100))"
| "toFixed2 PosInf = PosInf"
| "toFixed2 NegInf = NegInf"
| "toFixed2 NaN = NaN"

text \<open>
  The handler: the caller's active documents, newest first, with the totals rounded for
  the output.
\<close>

definition get_subscriptions :: "collection \<Rightarrow> object_id \<Rightarrow> response" where
  "get_subscriptions db userId =
     (let subscriptions =
            sort_key (\<lambda>s. - createdAt s)
              (find_docs (\<lambda>s. user s = userId \<and> isActive s) db);
          acc = foldl totals_step \<lparr>monthly = Fin 0, yearly = Fin 0\<rparr> subscriptions
      in (200, Subscriptions (length subscriptions) subscriptions
                 \<lparr>monthly = toFixed2 (monthly acc), yearly = toFixed2 (yearly acc)\<rparr>))"

section \<open>GET /api/subscriptions/:id\<close>

definition get_subscription :: "collection \<Rightarrow> object_id \<Rightarrow> object_id \<Rightarrow> response" where
  "get_subscription db userId i =
     (case findOne (\<lambda>s. ident s = i \<and> user s = userId) db of
        None \<Rightarrow> (404, Failure ''Subscription not found'')
      | Some subscription \<Rightarrow> (200, OneSubscription subscription))"

section \<open>Request bodies and their validation\<close>

text \<open>
  The request body, restricted to the paths of the schema (Mongoose drops the others):
  a field is absent (\<open>None\<close>) or holds a value of the type of its path.
\<close>

record body =
  b_user :: "object_id option"
  b_name :: "string option"
  b_cost :: "number option"
  b_billingCycle :: "string option"
  b_renewalDate :: "date option"
  b_category :: "string option"
  b_color :: "string option"
  b_isActive :: "bool option"
  b_notes :: "string option"
  b_createdAt :: "date option"
  b_updatedAt :: "date option"

definition billingCycles :: "string list" where
  "billingCycles = [''monthly'', ''yearly'']"

definition categories :: "string list" where
  "categories = [''entertainment'', ''productivity'', ''fitness'', ''education'',
     ''music'', ''news'', ''cloud'', ''other'']"

text \<open>The sanitizer \<^verbatim>\<open>trim()\<close>, on the whitespace of ASCII.\<close>

definition isWhitespace :: "char \<Rightarrow> bool" where
  "isWhitespace c = (c \<in> set [CHR '' '', CHR 0x09, CHR 0x0A, CHR 0x0B, CHR 0x0C, CHR 0x0D])"

definition trim :: "string \<Rightarrow> string" where
  "trim s = rev (dropWhile isWhitespace (rev (dropWhile isWhitespace s)))"

text \<open>
  \<^verbatim>\<open>isFloat({ min: 0 })\<close> on a field that is absent or a number: the validator reads
  the number's string, and neither \<^verbatim>\<open>Infinity\<close> nor \<^verbatim>\<open>NaN\<close> is a float to it.
\<close>

fun isFloat_min0 :: "number option \<Rightarrow> bool" where
  "isFloat_min0 None = False"
| "isFloat_min0 (Some (Fin c)) = (0 \<le> c)"
| "isFloat_min0 (Some PosInf) = False"
| "isFloat_min0 (Some NegInf) = False"
| "isFloat_min0 (Some NaN) = False"

text \<open>\<^verbatim>\<open>isIn(values)\<close> on a field that is absent or a string.\<close>

fun isIn :: "string list \<Rightarrow> string option \<Rightarrow> bool" where
  "isIn values None = False"
| "isIn values (Some v) = (v \<in> set values)"

text \<open>
  The validation chains of \<^verbatim>\<open>router.post('/')\<close>, in their order. The result is
  \<^verbatim>\<open>errors.array()\<close> and the body with its name sanitized.
\<close>

definition post_checks :: "body \<Rightarrow> verror list \<times> body" where
  "post_checks b =
     (let nm = trim (case b_name b of None \<Rightarrow> [] | Some v \<Rightarrow> v);
          e_name = (if nm = [] then
              [\<lparr>path = ''name'', msg = ''Subscription name is required''\<rparr>] else []);
          e_cost = (if isFloat_min0 (b_cost b) then [] else
              [\<lparr>path = ''cost'', msg = ''Cost must be a positive number''\<rparr>]);
          e_cycle = (if isIn billingCycles (b_billingCycle b) then [] else
              [\<lparr>path = ''billingCycle'', msg = ''Billing cycle must be monthly or yearly''\<rparr>]);
          e_category = (case b_category b of None \<Rightarrow> []
            | Some c \<Rightarrow> if isIn categories (Some c) then [] else
                [\<lparr>path = ''category'', msg = ''Invalid value''\<rparr>])
      in (e_name @ e_cost @ e_cycle @ e_category, b\<lparr>b_name := Some nm\<rparr>))"

text \<open>
  The chains of \<^verbatim>\<open>router.put('/:id')\<close>: every one is \<^verbatim>\<open>optional()\<close>, so an absent
  field is neither sanitized nor validated.
\<close>

definition put_checks :: "body \<Rightarrow> verror list \<times> body" where
  "put_checks b =
     (let e_name = (case b_name b of None \<Rightarrow> []
            | Some v \<Rightarrow> if trim v = [] then [\<lparr>path = ''name'', msg = ''Invalid value''\<rparr>] else []);
          e_cost = (case b_cost b of None \<Rightarrow> []
            | Some c \<Rightarrow> if isFloat_min0 (Some c) then [] else
                [\<lparr>path = ''cost'', msg = ''Invalid value''\<rparr>]);
          e_cycle = (case b_billingCycle b of None \<Rightarrow> []
            | Some v \<Rightarrow> if isIn billingCycles (Some v) then [] else
                [\<lparr>path = ''billingCycle'', msg = ''Invalid value''\<rparr>]);
          e_category = (case b_category b of None \<Rightarrow> []
            | Some c \<Rightarrow> if isIn categories (Some c) then [] else
                [\<lparr>path = ''category'', msg = ''Invalid value''\<rparr>])
      in (e_name @ e_cost @ e_cycle @ e_category, b\<lparr>b_name := map_option trim (b_name b)\<rparr>))"

section \<open>The validators of the schema\<close>

text \<open>\<^verbatim>\<open>/^#[0-9A-F]{6}$/i\<close>\<close>

definition isHexDigit :: "char \<Rightarrow> bool" where
  "isHexDigit c = (c \<in> set ''0123456789ABCDEFabcdef'')"

fun isHexColor :: "string \<Rightarrow> bool" where
  "isHexColor [] = False"
| "isHexColor (c # cs) = (c = CHR ''#'' \<and> length cs = 6 \<and> list_all isHexDigit cs)"

text \<open>
  \<^verbatim>\<open>match\<close> accepts the empty string, \<^verbatim>\<open>maxlength\<close> accepts an undefined value, and
  \<^verbatim>\<open>min: 0\<close> is the comparison \<^verbatim>\<open>v >= 0\<close>.
\<close>

definition color_ok :: "string \<Rightarrow> bool" where
  "color_ok c = (c = [] \<or> isHexColor c)"

fun notes_ok :: "string option \<Rightarrow> bool" where
  "notes_ok None = True"
| "notes_ok (Some n) = (length n \<le> 500)"

text \<open>Validation of a whole document, as \<^verbatim>\<open>save()\<close> runs it.\<close>

definition validate_doc :: "subscription \<Rightarrow> bool" where
  "validate_doc d =
     (name d \<noteq> [] \<and> ge0 (cost d) \<and> billingCycle d \<in> set billingCycles
      \<and> category d \<in> set categories \<and> color_ok (color d) \<and> notes_ok (notes' d))"

text \<open>
  Validation of an update (\<^verbatim>\<open>runValidators: true\<close>): the validators of the paths the
  update sets.
\<close>

definition validate_update :: "body \<Rightarrow> bool" where
  "validate_update b =
     ((case b_name b of None \<Rightarrow> True | Some n \<Rightarrow> n \<noteq> [])
      \<and> (case b_cost b of None \<Rightarrow> True | Some c \<Rightarrow> ge0 c)
      \<and> (case b_billingCycle b of None \<Rightarrow> True | Some v \<Rightarrow> v \<in> set billingCycles)
      \<and> (case b_category b of None \<Rightarrow> True | Some v \<Rightarrow> v \<in> set categories)
      \<and> (case b_color b of None \<Rightarrow> True | Some c \<Rightarrow> color_ok c)
      \<and> notes_ok (b_notes b))"

section \<open>POST /api/subscriptions\<close>

text \<open>
  \<^verbatim>\<open>new Subscription(obj)\<close>: the fields of \<open>obj\<close> with the defaults of the schema for the
  absent ones, the name trimmed by the schema's setter. The identifier is the driver's
  fresh ObjectId, and \<open>now\<close> is \<^verbatim>\<open>Date.now()\<close> as the defaults read it. The paths
  \<^verbatim>\<open>user\<close>, \<^verbatim>\<open>name\<close> and \<^verbatim>\<open>cost\<close> are required and have no default: a document
  that lacks one cannot be saved, and the result is \<open>None\<close>.
\<close>

definition new_Subscription :: "object_id \<Rightarrow> date \<Rightarrow> body \<Rightarrow> subscription option" where
  "new_Subscription oid now obj =
     (case (b_user obj, b_name obj, b_cost obj) of
        (Some u, Some n, Some c) \<Rightarrow>
          Some \<lparr>ident = oid, user = u, name = trim n, cost = c,
            billingCycle = (case b_billingCycle obj of None \<Rightarrow> ''monthly'' | Some v \<Rightarrow> v),
            renewalDate = b_renewalDate obj,
            category = (case b_category obj of None \<Rightarrow> ''other'' | Some v \<Rightarrow> v),
            color = (case b_color obj of None \<Rightarrow> ''#6366f1'' | Some v \<Rightarrow> v),
            isActive = (case b_isActive obj of None \<Rightarrow> True | Some v \<Rightarrow> v),
            notes' = b_notes obj,
            createdAt = (case b_createdAt obj of None \<Rightarrow> now | Some v \<Rightarrow> v),
            updatedAt = (case b_updatedAt obj of None \<Rightarrow> now | Some v \<Rightarrow> v)\<rparr>
      | _ \<Rightarrow> None)"

text \<open>
  The handler. \<open>oid\<close> is the new document's identifier, \<open>t0\<close> the clock when the
  document is built and \<open>t1\<close> the clock when the \<^verbatim>\<open>pre('save')\<close> hook runs.
  \<^verbatim>\<open>save()\<close> validates, runs the hook and inserts; a validation error is caught and
  answered with 500.
\<close>

definition post_subscription ::
  "collection \<Rightarrow> object_id \<Rightarrow> body \<Rightarrow> object_id \<Rightarrow> date \<Rightarrow> date \<Rightarrow> response \<times> collection" where
  "post_subscription db userId b oid t0 t1 =
     (case post_checks b of (errors, b') \<Rightarrow>
        if errors \<noteq> [] then ((400, Invalid errors), db)
        else (case new_Subscription oid t0 (b'\<lparr>b_user := Some userId\<rparr>) of
            None \<Rightarrow> ((500, Failure ''Server error''), db)
          | Some subscription \<Rightarrow>
              if validate_doc subscription then
                (let saved = pre_save t1 subscription
                 in ((201, Saved ''Subscription created successfully'' saved), db @ [saved]))
              else ((500, Failure ''Server error''), db)))"

section \<open>PUT /api/subscriptions/:id\<close>

text \<open>The update \<^verbatim>\<open>{ ...req.body, updatedAt }\<close> applied to a document: every field present is set.\<close>

definition apply_update :: "body \<Rightarrow> subscription \<Rightarrow> subscription" where
  "apply_update upd d =
     d\<lparr>user := (case b_user upd of None \<Rightarrow> user d | Some v \<Rightarrow> v),
       name := (case b_name upd of None \<Rightarrow> name d | Some v \<Rightarrow> v),
       cost := (case b_cost upd of None \<Rightarrow> cost d | Some v \<Rightarrow> v),
       billingCycle := (case b_billingCycle upd of None \<Rightarrow> billingCycle d | Some v \<Rightarrow> v),
       renewalDate := (case b_renewalDate upd of None \<Rightarrow> renewalDate d | Some v \<Rightarrow> Some v),
       category := (case b_category upd of None \<Rightarrow> category d | Some v \<Rightarrow> v),
       color := (case b_color upd of None \<Rightarrow> color d | Some v \<Rightarrow> v),
       isActive := (case b_isActive upd of None \<Rightarrow> isActive d | Some v \<Rightarrow> v),
       notes' := (case b_notes upd of None \<Rightarrow> notes' d | Some v \<Rightarrow> Some v),
       createdAt := (case b_createdAt upd of None \<Rightarrow> createdAt d | Some v \<Rightarrow> v),
       updatedAt := (case b_updatedAt upd of None \<Rightarrow> updatedAt d | Some v \<Rightarrow> v)\<rparr>"

text \<open>
  The handler; \<open>now\<close> is \<^verbatim>\<open>Date.now()\<close>. The update validators run on the update
  before the query; their error is caught and answered with 500.
\<close>

definition put_subscription ::
  "collection \<Rightarrow> object_id \<Rightarrow> object_id \<Rightarrow> body \<Rightarrow> date \<Rightarrow> response \<times> collection" where
  "put_subscription db userId i b now =
     (case put_checks b of (errors, b') \<Rightarrow>
        if errors \<noteq> [] then ((400, Invalid errors), db)
        else if validate_update b' then
          (case findOneAndUpdate (\<lambda>s. ident s = i \<and> user s = userId)
                  (apply_update (b'\<lparr>b_updatedAt := Some now\<rparr>)) db of
             (None, db') \<Rightarrow> ((404, Failure ''Subscription not found''), db)
           | (Some subscription, db') \<Rightarrow>
               ((200, Saved ''Subscription updated successfully'' subscription), db'))
        else ((500, Failure ''Server error''), db))"

section \<open>DELETE /api/subscriptions/:id\<close>

definition delete_subscription ::
  "collection \<Rightarrow> object_id \<Rightarrow> object_id \<Rightarrow> date \<Rightarrow> response \<times> collection" where
  "delete_subscription db userId i now =
     (case findOneAndUpdate (\<lambda>s. ident s = i \<and> user s = userId)
             (\<lambda>d. d\<lparr>isActive := False, updatedAt := now\<rparr>) db of
        (None, db') \<Rightarrow> ((404, Failure ''Subscription not found''), db)
      | (Some subscription, db') \<Rightarrow> ((200, Message ''Subscription deleted successfully''), db'))"

section \<open>GET /api/subscriptions/stats/overview\<close>

text \<open>\<^verbatim>\<open>acc[k] || 0\<close>: an absent key and a falsy value both read as zero.\<close>

fun or0 :: "number option \<Rightarrow> number" where
  "or0 None = Fin 0"
| "or0 (Some v) = (if falsy v then Fin 0 else v)"

text \<open>The reducer of the category breakdown, on an object as a map from its keys.\<close>

definition breakdown_step ::
  "(string \<rightharpoonup> number) \<Rightarrow> subscription \<Rightarrow> (string \<rightharpoonup> number)" where
  "breakdown_step acc sub =
     (let mc = (if billingCycle sub = ''yearly'' then div12 (cost sub) else cost sub)
      in acc(category sub \<mapsto> fadd (or0 (acc (category sub))) mc))"

text \<open>
  The key the comparator of the sort subtracts: the time value of the renewal date.
  The sort runs after the filter, so it never meets an undefined date.
\<close>

definition renewalTime :: "subscription \<Rightarrow> int" where
  "renewalTime sub = (case renewalDate sub of None \<Rightarrow> 0 | Some d \<Rightarrow> d)"

definition due :: "date \<Rightarrow> subscription \<Rightarrow> bool" where
  "due thirtyDaysLater sub =
     (case renewalDate sub of None \<Rightarrow> False | Some d \<Rightarrow> d \<le> thirtyDaysLater)"

definition project :: "subscription \<Rightarrow> renewal" where
  "project sub = \<lparr>r_id = ident sub, r_name = name sub, r_renewalDate = renewalDate sub,
     r_cost = cost sub, r_billingCycle = billingCycle sub\<rparr>"

text \<open>
  The handler; \<open>now\<close> is the time value of \<^verbatim>\<open>new Date()\<close>. \<^verbatim>\<open>Array.prototype.sort\<close>
  is stable, as \<open>sort_key\<close> is.
\<close>

definition get_stats_overview :: "collection \<Rightarrow> object_id \<Rightarrow> date \<Rightarrow> response" where
  "get_stats_overview db userId now =
     (let subscriptions = find_docs (\<lambda>s. user s = userId \<and> isActive s) db;
          breakdown = foldl breakdown_step Map.empty subscriptions;
          thirtyDaysLater = now + 30 * 24 * 60 * 60 * 1000;
          upcoming = take 5 (sort_key renewalTime (filter (due thirtyDaysLater) subscriptions))
      in (200, Statistics \<lparr>totalSubscriptions = length subscriptions,
                 categoryBreakdown = breakdown,
                 upcomingRenewals = map project upcoming\<rparr>))"

section \<open>Example documents\<close>

text \<open>A document with the defaults of the schema, for the concrete runs below.\<close>

definition doc :: "object_id \<Rightarrow> object_id \<Rightarrow> number \<Rightarrow> string \<Rightarrow> subscription" where
  "doc i u c cycle =
     \<lparr>ident = i, user = u, name = ''Netflix'', cost = c, billingCycle = cycle,
      renewalDate = None, category = ''other'', color = ''#6366f1'', isActive = True,
      notes' = None, createdAt = 0, updatedAt = 0\<rparr>"

text \<open>
  The doubles that the decimals 0.1, 0.2, 0.3, 0.7, 119.94 and 15.99 denote, by their
  exact values.
\<close>

definition d0_1 :: number where
  "d0_1 = Fin (3602879701896397 / 36028797018963968)"

definition d0_2 :: number where
  "d0_2 = Fin (3602879701896397 / 18014398509481984)"

definition d0_3 :: number where
  "d0_3 = Fin (5404319552844595 / 18014398509481984)"

definition d0_7 :: number where
  "d0_7 = Fin (3152519739159347 / 4503599627370496)"

definition d119_94 :: number where
  "d119_94 = Fin (2110006794167255 / 17592186044416)"

definition d15_99 :: number where
  "d15_99 = Fin (9001569755206779 / 562949953421312)"

text \<open>Two monthly subscriptions of cost 0.1 and 0.7.\<close>

definition tenths_db :: collection where
  "tenths_db = [doc 1 7 d0_1 ''monthly'', doc 2 7 d0_7 ''monthly'']"

text \<open>
  A yearly subscription of cost 119.94 of user 7, a monthly one of cost 1.125 of user 8
  and an inactive document of user 7.
\<close>

definition rounding_db :: collection where
  "rounding_db =
     [doc 3 7 d119_94 ''yearly'', doc 4 8 (Fin (9 / 8)) ''monthly'',
      (doc 5 7 (Fin 4) ''monthly'')\<lparr>isActive := False\<rparr>]"

text \<open>
  A collection for the statistics: nine active documents of user 7 in three categories
  (one without a renewal date), a document of user 8 and an inactive document of
  user 7.
\<close>

definition stats_db :: collection where
  "stats_db =
     [(doc 11 7 (Fin (1 / 2)) ''yearly'')\<lparr>category := ''music'', renewalDate := Some 6000\<rparr>,
      (doc 12 7 (Fin 8) ''yearly'')\<lparr>category := ''music''\<rparr>,
      (doc 13 7 (Fin 2) ''yearly'')\<lparr>category := ''music'', renewalDate := Some 7000\<rparr>,
      (doc 14 7 d0_1 ''monthly'')\<lparr>renewalDate := Some 2592001000\<rparr>,
      (doc 15 7 d0_2 ''monthly'')\<lparr>renewalDate := Some 500\<rparr>,
      (doc 16 7 d0_3 ''monthly'')\<lparr>renewalDate := Some 7001\<rparr>,
      (doc 17 7 (Fin 12) ''monthly'')\<lparr>category := ''news'', renewalDate := Some 5000\<rparr>,
      (doc 18 7 (Fin 120) ''yearly'')\<lparr>category := ''news'', renewalDate := Some 8000\<rparr>,
      (doc 19 7 (Fin 1) ''monthly'')\<lparr>category := ''news'', renewalDate := Some 2592001001\<rparr>,
      (doc 20 8 (Fin 100) ''monthly'')\<lparr>category := ''fitness'', renewalDate := Some 5\<rparr>,
      (doc 21 7 (Fin 7) ''monthly'')
        \<lparr>category := ''fitness'', renewalDate := Some 1, isActive := False\<rparr>]"

text \<open>
  Request bodies: the empty one, and the one of the README's example
  (\<^verbatim>\<open>renewalDate: "2024-03-01"\<close> is the time value 1709251200000).
\<close>

definition empty_body :: body where
  "empty_body = \<lparr>b_user = None, b_name = None, b_cost = None, b_billingCycle = None,
     b_renewalDate = None, b_category = None, b_color = None, b_isActive = None,
     b_notes = None, b_createdAt = None, b_updatedAt = None\<rparr>"

definition netflix_body :: body where
  "netflix_body = empty_body\<lparr>b_name := Some ''Netflix'', b_cost := Some d15_99,
     b_billingCycle := Some ''monthly'', b_category := Some ''entertainment'',
     b_renewalDate := Some 1709251200000, b_color := Some ''#e50914''\<rparr>"

section \<open>Facts about rounding\<close>

lemma floor_rat_numeral: "\<lfloor>(numeral a :: rat) / numeral b\<rfloor> = numeral a div numeral b"
  using floor_divide_of_int_eq [of "numeral a" "numeral b", where ?'a = rat] by simp

lemma pow2_powi: "pow2 e = 2 powi e"
  by (simp add: pow2_def power_int_def field_simps)

lemma pow2_pos: "0 < pow2 e"
  by (simp add: pow2_powi)

lemma pow2_less_iff: "pow2 a < pow2 b \<longleftrightarrow> a < b"
proof
  assume "pow2 a < pow2 b"
  show "a < b"
  proof (rule ccontr)
    assume "\<not> a < b"
    then have "b \<le> a" by simp
    then have "(2::rat) powi b \<le> 2 powi a" by (rule power_int_increasing) simp
    with \<open>pow2 a < pow2 b\<close> show False by (simp add: pow2_powi)
  qed
next
  assume "a < b"
  then have "(2::rat) powi a < 2 powi b" by (rule power_int_strict_increasing) simp
  then show "pow2 a < pow2 b" by (simp add: pow2_powi)
qed

lemma ilog2_bounds:
  assumes "0 < x"
  shows "pow2 (ilog2 x) \<le> x \<and> x < pow2 (ilog2 x + 1)"
proof (cases "1 \<le> x")
  case True
  define k where "k = \<lfloor>x\<rfloor>"
  have k: "1 \<le> k" using True by (simp add: k_def le_floor_iff)
  then have b: "1 \<le> bitlen k" by (simp add: bitlen_alt_def)
  from bitlen_bounds [of k] k
  have lo: "2 ^ nat (bitlen k - 1) \<le> k" and hi: "k < 2 ^ nat (bitlen k)" by simp_all
  have e: "ilog2 x = bitlen k - 1" using True by (simp add: ilog2_def k_def)
  have "pow2 (bitlen k - 1) = of_int (2 ^ nat (bitlen k - 1))"
    using b by (simp add: pow2_def)
  also have "\<dots> \<le> of_int k" using lo by (simp only: of_int_le_iff)
  also have "\<dots> \<le> x" by (simp add: k_def)
  finally have 1: "pow2 (ilog2 x) \<le> x" by (simp add: e)
  have "k + 1 \<le> 2 ^ nat (bitlen k)" using hi by simp
  then have "of_int (k + 1) \<le> (of_int (2 ^ nat (bitlen k)) :: rat)" by (simp only: of_int_le_iff)
  moreover have "x < of_int (k + 1)" using floor_correct [of x] by (simp add: k_def)
  ultimately have "x < of_int (2 ^ nat (bitlen k))" by simp
  also have "\<dots> = pow2 (bitlen k)" using b by (simp add: pow2_def)
  finally have 2: "x < pow2 (ilog2 x + 1)" by (simp add: e)
  from 1 2 show ?thesis ..
next
  case False
  define y where "y = 1 / x"
  have y: "1 < y" using False assms by (simp add: y_def)
  define j where "j = \<lceil>y\<rceil> - 1"
  have j: "1 \<le> j" using y by (simp add: j_def less_ceiling_iff)
  then have b: "1 \<le> bitlen j" by (simp add: bitlen_alt_def)
  from bitlen_bounds [of j] j
  have lo: "2 ^ nat (bitlen j - 1) \<le> j" and hi: "j < 2 ^ nat (bitlen j)" by simp_all
  have e: "ilog2 x = - bitlen j" using False by (simp add: ilog2_def j_def y_def)
  have "y \<le> of_int (j + 1)" by (simp add: j_def)
  also have "j + 1 \<le> 2 ^ nat (bitlen j)" using hi by simp
  then have "(of_int (j + 1) :: rat) \<le> of_int (2 ^ nat (bitlen j))" by (simp only: of_int_le_iff)
  finally have "y \<le> 2 ^ nat (bitlen j)" by simp
  then have "1 / 2 ^ nat (bitlen j) \<le> x"
    using assms by (simp add: y_def field_simps)
  then have 1: "pow2 (ilog2 x) \<le> x"
    using b by (simp add: e pow2_def)
  have "(of_int (2 ^ nat (bitlen j - 1)) :: rat) \<le> of_int j" using lo by (simp only: of_int_le_iff)
  also have "of_int j < y" by (simp add: j_def) linarith
  finally have "2 ^ nat (bitlen j - 1) < y" by simp
  then have "x < 1 / 2 ^ nat (bitlen j - 1)"
    using assms by (simp add: y_def field_simps)
  moreover have "pow2 (- bitlen j + 1) = 1 / 2 ^ nat (bitlen j - 1)"
    using b by (cases "bitlen j = 1") (simp_all add: pow2_def)
  ultimately have 2: "x < pow2 (ilog2 x + 1)" by (simp add: e)
  from 1 2 show ?thesis ..
qed

lemma ilog2_unique:
  assumes "pow2 e \<le> x" and "x < pow2 (e + 1)"
  shows "ilog2 x = e"
proof -
  have x: "0 < x" using assms(1) pow2_pos [of e] by simp
  from ilog2_bounds [OF x] have "pow2 (ilog2 x) < pow2 (e + 1)" and "pow2 e < pow2 (ilog2 x + 1)"
    using assms by simp_all
  then show ?thesis by (simp add: pow2_less_iff)
qed

lemma rnd_eqI:
  assumes "pow2 e \<le> \<bar>x\<bar>" and "\<bar>x\<bar> < pow2 (e + 1)" and "- 1022 \<le> e"
    and "round_even (\<bar>x\<bar> / pow2 (e - 52)) = n"
    and "of_int n * pow2 (e - 52) < pow2 1024"
    and "y = (if 0 < x then of_int n * pow2 (e - 52) else - (of_int n * pow2 (e - 52)))"
  shows "rnd x = Fin y"
proof -
  have "x \<noteq> 0" using assms(1) pow2_pos [of e] by auto
  moreover have "ilog2 \<bar>x\<bar> = e" using assms(1,2) by (rule ilog2_unique)
  moreover have "max e (- 1022) = e" using assms(3) by simp
  ultimately have "rnd x =
      (if pow2 1024 \<le> of_int n * pow2 (e - 52) then (if 0 < x then PosInf else NegInf)
       else Fin (if 0 < x then of_int n * pow2 (e - 52) else - (of_int n * pow2 (e - 52))))"
    by (simp only: rnd_def Let_def assms(4) if_False)
  then show ?thesis
    using assms(5,6) by simp
qed

lemma pow2_add: "pow2 (a + b) = pow2 a * pow2 b"
  by (simp add: pow2_powi power_int_add)

lemma pow2_le_iff: "pow2 a \<le> pow2 b \<longleftrightarrow> a \<le> b"
  using pow2_less_iff [of b a] by (auto simp: not_less [symmetric])

lemma round_even_le: "round_even r \<le> \<lfloor>r\<rfloor> + 1"
  by (simp add: round_even_def Let_def)

lemma round_even_ge: "\<lfloor>r\<rfloor> \<le> round_even r"
  by (simp add: round_even_def Let_def)

lemma rnd_not_NaN: "rnd x \<noteq> NaN"
  by (simp add: rnd_def Let_def)

lemma rnd_finite:
  assumes "\<bar>x\<bar> < pow2 1023"
  shows "\<exists>y. rnd x = Fin y"
proof (cases "x = 0")
  case True
  then show ?thesis by (simp add: rnd_def)
next
  case False
  define a where "a = \<bar>x\<bar>"
  define e where "e = max (ilog2 a) (- 1022)"
  define q where "q = pow2 (e - 52)"
  define n where "n = round_even (a / q)"
  have a: "0 < a" using False by (simp add: a_def)
  have q: "0 < q" by (simp add: q_def pow2_pos)
  from ilog2_bounds [OF a] have lo: "pow2 (ilog2 a) \<le> a" and hi: "a < pow2 (ilog2 a + 1)"
    by simp_all
  from lo assms have "pow2 (ilog2 a) < pow2 1023" by (simp add: a_def)
  then have "ilog2 a < 1023" by (simp only: pow2_less_iff)
  then have e: "e \<le> 1022" by (simp add: e_def)
  have "pow2 (ilog2 a + 1) \<le> pow2 (e + 1)"
    by (simp only: pow2_le_iff) (simp add: e_def)
  have split: "pow2 (e + 1) = 2 ^ 53 * q"
  proof -
    have "e + 1 = 53 + (e - 52)" by simp
    then have "pow2 (e + 1) = pow2 (53 + (e - 52))" by (rule arg_cong)
    also have "\<dots> = pow2 53 * q" by (simp only: pow2_add q_def)
    also have "pow2 53 = 2 ^ 53" by (simp add: pow2_def)
    finally show ?thesis .
  qed
  from hi \<open>pow2 (ilog2 a + 1) \<le> pow2 (e + 1)\<close> have "a < 2 ^ 53 * q"
    by (simp add: split)
  then have "a / q < 2 ^ 53" using q by (simp add: field_simps)
  then have "\<lfloor>a / q\<rfloor> < 2 ^ 53" by (subst floor_less_iff) simp
  then have "n \<le> 2 ^ 53" using round_even_le [of "a / q"] unfolding n_def by linarith
  then have "(of_int n :: rat) \<le> of_int (2 ^ 53)" by (simp only: of_int_le_iff)
  then have "of_int n * q \<le> 2 ^ 53 * q" using q by simp
  also have "\<dots> = pow2 (e + 1)" by (simp only: split)
  also have "\<dots> < pow2 1024" using e by (simp only: pow2_less_iff)
  finally have "\<not> pow2 1024 \<le> of_int n * q" by simp
  then show ?thesis
    using False by (simp add: rnd_def Let_def a_def [symmetric] e_def [symmetric]
        q_def [symmetric] n_def [symmetric])
qed

text \<open>
  A finite result of rounding lies within half a unit in the last place of the exact
  value, and it is a multiple of that unit with a significand of at most 53 bits.
\<close>

lemma round_even_error: "\<bar>of_int (round_even r) - r\<bar> \<le> 1 / 2"
proof -
  define f where "f = \<lfloor>r\<rfloor>"
  define d where "d = r - of_int f"
  have d: "0 \<le> d" "d < 1"
    using floor_correct [of r] by (simp_all add: d_def f_def)
  have r: "r = of_int f + d" by (simp add: d_def)
  have "round_even r =
      (if d < 1 / 2 then f else if 1 / 2 < d then f + 1 else if even f then f else f + 1)"
    unfolding d_def f_def by (simp only: round_even_def Let_def)
  then have "round_even r = f \<and> d \<le> 1 / 2 \<or> round_even r = f + 1 \<and> 1 / 2 \<le> d"
    by (auto simp only: not_less split: if_splits)
  then show ?thesis
    using d by (auto simp: r)
qed

lemma rnd_error:
  assumes "rnd x = Fin y"
  shows "\<bar>y - x\<bar> \<le> pow2 (max (ilog2 \<bar>x\<bar>) (- 1022) - 53)"
proof (cases "x = 0")
  case True
  with assms show ?thesis
    using pow2_pos [of "max (ilog2 \<bar>x\<bar>) (- 1022) - 53"] by (simp add: rnd_def)
next
  case False
  define e where "e = max (ilog2 \<bar>x\<bar>) (- 1022)"
  define q where "q = pow2 (e - 52)"
  define n where "n = round_even (\<bar>x\<bar> / q)"
  have q: "0 < q" by (simp add: q_def pow2_pos)
  have half: "pow2 (e - 53) = q / 2"
  proof -
    have "e - 52 = 1 + (e - 53)" by simp
    then have "pow2 (e - 52) = pow2 (1 + (e - 53))" by (rule arg_cong)
    also have "\<dots> = pow2 1 * pow2 (e - 53)" by (simp only: pow2_add)
    finally show ?thesis by (simp add: q_def pow2_def)
  qed
  have "rnd x =
      (if pow2 1024 \<le> of_int n * q then (if 0 < x then PosInf else NegInf)
       else Fin (if 0 < x then of_int n * q else - (of_int n * q)))"
    unfolding n_def q_def e_def by (simp only: rnd_def Let_def False if_False)
  with assms have y: "y = (if 0 < x then of_int n * q else - (of_int n * q))"
    by (simp split: if_splits)
  have "\<bar>of_int n * q - \<bar>x\<bar>\<bar> = \<bar>of_int n - \<bar>x\<bar> / q\<bar> * q"
  proof -
    have "of_int n * q - \<bar>x\<bar> = (of_int n - \<bar>x\<bar> / q) * q"
      using q by (simp add: left_diff_distrib)
    then show ?thesis
      using q by (simp add: abs_mult)
  qed
  also have "\<dots> \<le> 1 / 2 * q"
    using round_even_error [of "\<bar>x\<bar> / q"] q unfolding n_def by (intro mult_right_mono) simp_all
  finally have "\<bar>of_int n * q - \<bar>x\<bar>\<bar> \<le> q / 2" by simp
  moreover have "\<bar>y - x\<bar> = \<bar>of_int n * q - \<bar>x\<bar>\<bar>"
  proof (cases "0 < x")
    case True
    then show ?thesis by (simp add: y)
  next
    case neg: False
    then have "y - x = - (of_int n * q - \<bar>x\<bar>)" by (simp add: y)
    then show ?thesis by (simp only: abs_minus_cancel)
  qed
  ultimately show ?thesis
    by (simp add: half e_def [symmetric])
qed


lemma rnd_grid:
  assumes "rnd x = Fin y"
  shows "\<exists>n. y = of_int n * pow2 (max (ilog2 \<bar>x\<bar>) (- 1022) - 52) \<and> \<bar>n\<bar> \<le> 2 ^ 53"
proof (cases "x = 0")
  case True
  with assms have "y = 0" by (simp add: rnd_def)
  then show ?thesis by (intro exI [of _ 0]) simp
next
  case False
  define a where "a = \<bar>x\<bar>"
  define e where "e = max (ilog2 a) (- 1022)"
  define q where "q = pow2 (e - 52)"
  define n where "n = round_even (a / q)"
  have a: "0 < a" using False by (simp add: a_def)
  have q: "0 < q" by (simp add: q_def pow2_pos)
  from ilog2_bounds [OF a] have hi: "a < pow2 (ilog2 a + 1)" by simp
  have "pow2 (ilog2 a + 1) \<le> pow2 (e + 1)"
    by (simp only: pow2_le_iff) (simp add: e_def)
  moreover have split: "pow2 (e + 1) = 2 ^ 53 * q"
  proof -
    have "e + 1 = 53 + (e - 52)" by simp
    then have "pow2 (e + 1) = pow2 (53 + (e - 52))" by (rule arg_cong)
    also have "\<dots> = pow2 53 * q" by (simp only: pow2_add q_def)
    also have "pow2 53 = 2 ^ 53" by (simp add: pow2_def)
    finally show ?thesis .
  qed
  ultimately have "a < 2 ^ 53 * q" using hi by simp
  then have "a / q < 2 ^ 53" using q by (simp add: field_simps)
  then have "\<lfloor>a / q\<rfloor> < 2 ^ 53" by (subst floor_less_iff) simp
  then have up: "n \<le> 2 ^ 53" using round_even_le [of "a / q"] unfolding n_def by linarith
  have "0 \<le> a / q" using a q by simp
  then have "0 \<le> \<lfloor>a / q\<rfloor>" by simp
  then have lo: "0 \<le> n" using round_even_ge [of "a / q"] unfolding n_def by linarith
  have "rnd x =
      (if pow2 1024 \<le> of_int n * q then (if 0 < x then PosInf else NegInf)
       else Fin (if 0 < x then of_int n * q else - (of_int n * q)))"
    unfolding n_def q_def e_def a_def by (simp only: rnd_def Let_def False if_False)
  with assms have y: "y = (if 0 < x then of_int n * q else - (of_int n * q))"
    by (simp split: if_splits)
  show ?thesis
  proof (cases "0 < x")
    case True
    with y up lo show ?thesis
      unfolding q_def e_def a_def by (intro exI [of _ n]) simp
  next
    case neg: False
    with y up lo show ?thesis
      unfolding q_def e_def a_def by (intro exI [of _ "- n"]) simp
  qed
qed

text \<open>
  The values of rounding at the arguments that the concrete runs below meet, each from
  its binary exponent \<open>e\<close> and its significand \<open>n\<close>.
\<close>

named_theorems rnd_evals \<open>values of rounding at the arguments of the concrete runs\<close>

lemma rnd_eval_1 [rnd_evals]:
  "rnd (6004799503160661 / 144115188075855872) =
     Fin (6004799503160661 / 144115188075855872)"
  by (rule rnd_eqI [where e = "- 5" and n = 6004799503160661])
    (simp_all add: pow2_def round_even_def floor_rat_numeral Let_def)

lemma rnd_eval_2 [rnd_evals]: "rnd (1 / 24) = Fin (6004799503160661 / 144115188075855872)"
  by (rule rnd_eqI [where e = "- 5" and n = 6004799503160661])
    (simp_all add: pow2_def round_even_def floor_rat_numeral Let_def)

lemma rnd_eval_3 [rnd_evals]: "rnd (1 / 10) = Fin (3602879701896397 / 36028797018963968)"
  by (rule rnd_eqI [where e = "- 4" and n = 7205759403792794])
    (simp_all add: pow2_def round_even_def floor_rat_numeral Let_def)

lemma rnd_eval_4 [rnd_evals]:
  "rnd (3602879701896397 / 36028797018963968) =
     Fin (3602879701896397 / 36028797018963968)"
  by (rule rnd_eqI [where e = "- 4" and n = 7205759403792794])
    (simp_all add: pow2_def round_even_def floor_rat_numeral Let_def)

lemma rnd_eval_5 [rnd_evals]: "rnd (1 / 6) = Fin (6004799503160661 / 36028797018963968)"
  by (rule rnd_eqI [where e = "- 3" and n = 6004799503160661])
    (simp_all add: pow2_def round_even_def floor_rat_numeral Let_def)

lemma rnd_eval_6 [rnd_evals]: "rnd (1 / 5) = Fin (3602879701896397 / 18014398509481984)"
  by (rule rnd_eqI [where e = "- 3" and n = 7205759403792794])
    (simp_all add: pow2_def round_even_def floor_rat_numeral Let_def)

lemma rnd_eval_7 [rnd_evals]: "rnd (3 / 10) = Fin (5404319552844595 / 18014398509481984)"
  by (rule rnd_eqI [where e = "- 2" and n = 5404319552844595])
    (simp_all add: pow2_def round_even_def floor_rat_numeral Let_def)

lemma rnd_eval_8 [rnd_evals]:
  "rnd (10808639105689191 / 36028797018963968) =
     Fin (1351079888211149 / 4503599627370496)"
  by (rule rnd_eqI [where e = "- 2" and n = 5404319552844596])
    (simp_all add: pow2_def round_even_def floor_rat_numeral Let_def)

lemma rnd_eval_9 [rnd_evals]:
  "rnd (10808639105689191 / 18014398509481984) =
     Fin (1351079888211149 / 2251799813685248)"
  by (rule rnd_eqI [where e = "- 1" and n = 5404319552844596])
    (simp_all add: pow2_def round_even_def floor_rat_numeral Let_def)

lemma rnd_eval_10 [rnd_evals]: "rnd (2 / 3) = Fin (6004799503160661 / 9007199254740992)"
  by (rule rnd_eqI [where e = "- 1" and n = 6004799503160661])
    (simp_all add: pow2_def round_even_def floor_rat_numeral Let_def)

lemma rnd_eval_11 [rnd_evals]: "rnd (7 / 10) = Fin (3152519739159347 / 4503599627370496)"
  by (rule rnd_eqI [where e = "- 1" and n = 6305039478318694])
    (simp_all add: pow2_def round_even_def floor_rat_numeral Let_def)

lemma rnd_eval_12 [rnd_evals]:
  "rnd (102081591553731237 / 144115188075855872) =
     Fin (3190049736054101 / 4503599627370496)"
  by (rule rnd_eqI [where e = "- 1" and n = 6380099472108202])
    (simp_all add: pow2_def round_even_def floor_rat_numeral Let_def)

lemma rnd_eval_13 [rnd_evals]:
  "rnd (28823037615171173 / 36028797018963968) =
     Fin (7205759403792793 / 9007199254740992)"
  by (rule rnd_eqI [where e = "- 1" and n = 7205759403792793])
    (simp_all add: pow2_def round_even_def floor_rat_numeral Let_def)

lemma rnd_eval_14 [rnd_evals]: "rnd (4 / 5) = Fin (3602879701896397 / 4503599627370496)"
  by (rule rnd_eqI [where e = "- 1" and n = 7205759403792794])
    (simp_all add: pow2_def round_even_def floor_rat_numeral Let_def)

lemma rnd_eval_15 [rnd_evals]: "rnd (5 / 6) = Fin (7505999378950827 / 9007199254740992)"
  by (rule rnd_eqI [where e = "- 1" and n = 7505999378950827])
    (simp_all add: pow2_def round_even_def floor_rat_numeral Let_def)

lemma rnd_eval_16 [rnd_evals]:
  "rnd (31525197391593469 / 36028797018963968) =
     Fin (7881299347898367 / 9007199254740992)"
  by (rule rnd_eqI [where e = "- 1" and n = 7881299347898367])
    (simp_all add: pow2_def round_even_def floor_rat_numeral Let_def)

lemma rnd_eval_17 [rnd_evals]: "rnd (9 / 8) = Fin (9 / 8)"
  by (rule rnd_eqI [where e = "0" and n = 5066549580791808])
    (simp_all add: pow2_def round_even_def floor_rat_numeral Let_def)

lemma rnd_eval_18 [rnd_evals]: "rnd (113 / 100) = Fin (1272266894732165 / 1125899906842624)"
  by (rule rnd_eqI [where e = "0" and n = 5089067578928660])
    (simp_all add: pow2_def round_even_def floor_rat_numeral Let_def)

lemma rnd_eval_19 [rnd_evals]:
  "rnd (10808639105689191 / 9007199254740992) =
     Fin (1351079888211149 / 1125899906842624)"
  by (rule rnd_eqI [where e = "0" and n = 5404319552844596])
    (simp_all add: pow2_def round_even_def floor_rat_numeral Let_def)

lemma rnd_eval_20 [rnd_evals]:
  "rnd (1351079888211149 / 1125899906842624) =
     Fin (1351079888211149 / 1125899906842624)"
  by (rule rnd_eqI [where e = "0" and n = 5404319552844596])
    (simp_all add: pow2_def round_even_def floor_rat_numeral Let_def)

lemma rnd_eval_21 [rnd_evals]:
  "rnd (9457559217478041 / 1125899906842624) =
     Fin (1182194902184755 / 140737488355328)"
  by (rule rnd_eqI [where e = "3" and n = 4728779608739020])
    (simp_all add: pow2_def round_even_def floor_rat_numeral Let_def)

lemma rnd_eval_22 [rnd_evals]:
  "rnd (10808639105689189 / 1125899906842624) =
     Fin (2702159776422297 / 281474976710656)"
  by (rule rnd_eqI [where e = "3" and n = 5404319552844594])
    (simp_all add: pow2_def round_even_def floor_rat_numeral Let_def)

lemma rnd_eval_23 [rnd_evals]:
  "rnd (21617278211378379 / 2251799813685248) =
     Fin (5404319552844595 / 562949953421312)"
  by (rule rnd_eqI [where e = "3" and n = 5404319552844595])
    (simp_all add: pow2_def round_even_def floor_rat_numeral Let_def)

lemma rnd_eval_24 [rnd_evals]: "rnd (48 / 5) = Fin (5404319552844595 / 562949953421312)"
  by (rule rnd_eqI [where e = "3" and n = 5404319552844595])
    (simp_all add: pow2_def round_even_def floor_rat_numeral Let_def)

lemma rnd_eval_25 [rnd_evals]: "rnd (999 / 100) = Fin (5623870034678907 / 562949953421312)"
  by (rule rnd_eqI [where e = "3" and n = 5623870034678907])
    (simp_all add: pow2_def round_even_def floor_rat_numeral Let_def)

lemma rnd_eval_26 [rnd_evals]:
  "rnd (5626684784446013 / 562949953421312) =
     Fin (5626684784446013 / 562949953421312)"
  by (rule rnd_eqI [where e = "3" and n = 5626684784446013])
    (simp_all add: pow2_def round_even_def floor_rat_numeral Let_def)

lemma rnd_eval_27 [rnd_evals]:
  "rnd (2110006794167255 / 211106232532992) =
     Fin (5626684784446013 / 562949953421312)"
  by (rule rnd_eqI [where e = "3" and n = 5626684784446013])
    (simp_all add: pow2_def round_even_def floor_rat_numeral Let_def)

lemma rnd_eval_28 [rnd_evals]: "rnd (10) = Fin (10)"
  by (rule rnd_eqI [where e = "3" and n = 5629499534213120])
    (simp_all add: pow2_def round_even_def floor_rat_numeral Let_def)

lemma rnd_eval_29 [rnd_evals]: "rnd (11) = Fin (11)"
  by (rule rnd_eqI [where e = "3" and n = 6192449487634432])
    (simp_all add: pow2_def round_even_def floor_rat_numeral Let_def)

lemma rnd_eval_30 [rnd_evals]: "rnd (12) = Fin (12)"
  by (rule rnd_eqI [where e = "3" and n = 6755399441055744])
    (simp_all add: pow2_def round_even_def floor_rat_numeral Let_def)

lemma rnd_eval_31 [rnd_evals]: "rnd (27 / 2) = Fin (27 / 2)"
  by (rule rnd_eqI [where e = "3" and n = 7599824371187712])
    (simp_all add: pow2_def round_even_def floor_rat_numeral Let_def)

lemma rnd_eval_32 [rnd_evals]: "rnd (1599 / 100) = Fin (9001569755206779 / 562949953421312)"
  by (rule rnd_eqI [where e = "3" and n = 9001569755206779])
    (simp_all add: pow2_def round_even_def floor_rat_numeral Let_def)

lemma rnd_eval_33 [rnd_evals]: "rnd (22) = Fin (22)"
  by (rule rnd_eqI [where e = "4" and n = 6192449487634432])
    (simp_all add: pow2_def round_even_def floor_rat_numeral Let_def)

lemma rnd_eval_34 [rnd_evals]: "rnd (23) = Fin (23)"
  by (rule rnd_eqI [where e = "4" and n = 6473924464345088])
    (simp_all add: pow2_def round_even_def floor_rat_numeral Let_def)

lemma rnd_eval_35 [rnd_evals]:
  "rnd (16880054353338039 / 140737488355328) =
     Fin (2110006794167255 / 17592186044416)"
  by (rule rnd_eqI [where e = "6" and n = 8440027176669020])
    (simp_all add: pow2_def round_even_def floor_rat_numeral Let_def)

lemma rnd_eval_36 [rnd_evals]:
  "rnd (2110006794167255 / 17592186044416) =
     Fin (2110006794167255 / 17592186044416)"
  by (rule rnd_eqI [where e = "6" and n = 8440027176669020])
    (simp_all add: pow2_def round_even_def floor_rat_numeral Let_def)

lemma rnd_eval_37 [rnd_evals]: "rnd (5997 / 50) = Fin (2110006794167255 / 17592186044416)"
  by (rule rnd_eqI [where e = "6" and n = 8440027176669020])
    (simp_all add: pow2_def round_even_def floor_rat_numeral Let_def)

lemma rnd_eval_38 [rnd_evals]: "rnd (120) = Fin (120)"
  by (rule rnd_eqI [where e = "6" and n = 8444249301319680])
    (simp_all add: pow2_def round_even_def floor_rat_numeral Let_def)

lemma rnd_eval_39 [rnd_evals]: "rnd (132) = Fin (132)"
  by (rule rnd_eqI [where e = "7" and n = 4644337115725824])
    (simp_all add: pow2_def round_even_def floor_rat_numeral Let_def)

lemma rnd_eval_40 [rnd_evals]: "rnd (144) = Fin (144)"
  by (rule rnd_eqI [where e = "7" and n = 5066549580791808])
    (simp_all add: pow2_def round_even_def floor_rat_numeral Let_def)

lemma rnd_eval_41 [rnd_evals]: "rnd (264) = Fin (264)"
  by (rule rnd_eqI [where e = "8" and n = 4644337115725824])
    (simp_all add: pow2_def round_even_def floor_rat_numeral Let_def)

text \<open>The example costs are the doubles of their decimals.\<close>

lemma decimal_doubles:
  "rnd (1 / 10) = d0_1" "rnd (2 / 10) = d0_2" "rnd (3 / 10) = d0_3" "rnd (7 / 10) = d0_7"
  "rnd (11994 / 100) = d119_94" "rnd (1599 / 100) = d15_99"
  by (simp_all add: d0_1_def d0_2_def d0_3_def d0_7_def d119_94_def d15_99_def rnd_evals)

section \<open>Auxiliary facts\<close>

lemma floor_one_half: "\<lfloor>(1::rat) / 2\<rfloor> = 0"
  by (rule floor_unique) simp_all

lemma toFixed2_zero: "toFixed2 (Fin 0) = Fin 0"
  by (simp add: rnd_def floor_one_half)

lemma toFixed2_nearest:
  assumes "\<bar>x\<bar> < 10 ^ 21"
    and "of_int n \<le> \<bar>x\<bar> * 100 + 1 / 2" and "\<bar>x\<bar> * 100 + 1 / 2 < of_int n + 1"
  shows "toFixed2 (Fin x) = rnd (sgn x * of_int n / 100)"
proof -
  have n: "\<lfloor>\<bar>x\<bar> * 100 + 1 / 2\<rfloor> = n"
    using assms(2,3) by (rule floor_unique)
  show ?thesis
  proof (cases "x = 0")
    case True
    with n show ?thesis by (simp add: rnd_def floor_one_half)
  next
    case False
    with n assms(1) show ?thesis by (simp add: sgn_if)
  qed
qed

lemma totals_step_monthlyCost:
  "totals_step acc s =
     \<lparr>monthly = fadd (monthly acc) (monthlyCost s),
      yearly = fadd (yearly acc) (mul12 (monthlyCost s))\<rparr>"
  by (simp add: totals_step_def monthlyCost_def Let_def)

lemma foldl_totals_step:
  "foldl totals_step acc xs =
     \<lparr>monthly = foldl fadd (monthly acc) (map monthlyCost xs),
      yearly = foldl fadd (yearly acc) (map (\<lambda>s. mul12 (monthlyCost s)) xs)\<rparr>"
proof (induction xs arbitrary: acc)
  case Nil
  show ?case by simp
next
  case (Cons x xs)
  have step: "totals_step acc x =
      \<lparr>monthly = fadd (monthly acc) (monthlyCost x),
       yearly = fadd (yearly acc) (mul12 (monthlyCost x))\<rparr>"
    by (rule totals_step_monthlyCost)
  show ?case
    by (simp add: Cons.IH step)
qed

lemma or0_ge0: "\<forall>k v. acc k = Some v \<longrightarrow> ge0 v \<Longrightarrow> ge0 (or0 (acc c))"
proof (cases "acc c")
  case None
  then show ?thesis by simp
next
  case (Some v)
  assume "\<forall>k v. acc k = Some v \<longrightarrow> ge0 v"
  with Some have "ge0 v" by blast
  with Some show ?thesis by simp
qed

lemma or0_Some: "v \<noteq> NaN \<Longrightarrow> or0 (Some v) = v"
  by (cases v) simp_all

lemma rnd_ge0: "0 \<le> x \<Longrightarrow> ge0 (rnd x)"
proof (cases "x = 0")
  case True
  then show ?thesis by (simp add: rnd_def)
next
  case False
  assume "0 \<le> x"
  with False have x: "0 < x" by simp
  define q where "q = pow2 (max (ilog2 \<bar>x\<bar>) (- 1022) - 52)"
  define n where "n = round_even (\<bar>x\<bar> / q)"
  have q: "0 < q" by (simp add: q_def pow2_pos)
  then have "0 \<le> \<bar>x\<bar> / q" by simp
  then have "0 \<le> \<lfloor>\<bar>x\<bar> / q\<rfloor>" by simp
  then have "0 \<le> n" using round_even_ge [of "\<bar>x\<bar> / q"] unfolding n_def by linarith
  then have y: "0 \<le> of_int n * q" using q by simp
  have "rnd x = (if pow2 1024 \<le> of_int n * q then PosInf else Fin (of_int n * q))"
    unfolding n_def q_def using x by (simp only: rnd_def Let_def False if_False if_True)
  with y show ?thesis by simp
qed

lemma fadd_ge0: "ge0 a \<Longrightarrow> ge0 b \<Longrightarrow> ge0 (fadd a b)"
  by (cases a; cases b) (simp_all add: rnd_ge0)

lemma monthlyCost_ge0: "ge0 (cost s) \<Longrightarrow> ge0 (monthlyCost s)"
  by (cases "cost s") (simp_all add: monthlyCost_def rnd_ge0)

lemma ge0_not_NaN: "ge0 v \<Longrightarrow> v \<noteq> NaN"
  by (cases v) simp_all

lemma breakdown_step_monthlyCost:
  "breakdown_step acc s = acc(category s \<mapsto> fadd (or0 (acc (category s))) (monthlyCost s))"
  by (simp add: breakdown_step_def monthlyCost_def Let_def)

lemma dom_foldl_breakdown_step:
  "dom (foldl breakdown_step acc xs) = dom acc \<union> category ` set xs"
proof (induction xs arbitrary: acc)
  case Nil
  show ?case by simp
next
  case (Cons x xs)
  have step: "dom (breakdown_step acc x) = insert (category x) (dom acc)"
    by (simp add: breakdown_step_monthlyCost)
  show ?case
    by (simp add: Cons.IH step)
qed

lemma foldl_breakdown_step:
  assumes "\<forall>s \<in> set xs. ge0 (monthlyCost s)"
    and "\<forall>k v. acc k = Some v \<longrightarrow> ge0 v"
  shows "foldl breakdown_step acc xs c =
     (if c \<in> category ` set xs
      then Some (foldl fadd (or0 (acc c)) (map monthlyCost (filter (\<lambda>s. category s = c) xs)))
      else acc c)"
  using assms
proof (induction xs arbitrary: acc)
  case Nil
  show ?case by simp
next
  case (Cons x xs)
  define w where "w = fadd (or0 (acc (category x))) (monthlyCost x)"
  define acc' where "acc' = acc(category x \<mapsto> w)"
  have "ge0 (or0 (acc (category x)))"
    using Cons.prems(2) by (rule or0_ge0)
  moreover have "ge0 (monthlyCost x)"
    using Cons.prems(1) by simp
  ultimately have "ge0 w"
    unfolding w_def by (rule fadd_ge0)
  then have w: "w \<noteq> NaN" by (rule ge0_not_NaN)
  have step: "breakdown_step acc x = acc'"
    by (simp add: breakdown_step_monthlyCost acc'_def w_def)
  have inv: "\<forall>k v. acc' k = Some v \<longrightarrow> ge0 v"
    using Cons.prems(2) \<open>ge0 w\<close> by (simp add: acc'_def)
  have rest: "\<forall>s \<in> set xs. ge0 (monthlyCost s)"
    using Cons.prems(1) by simp
  have none: "filter (\<lambda>s. category s = k) xs = []" if "k \<notin> category ` set xs" for k
    using that by (auto simp: filter_empty_conv)
  have "foldl breakdown_step acc (x # xs) c = foldl breakdown_step acc' xs c"
    by (simp add: step)
  also have "\<dots> = (if c \<in> category ` set xs
      then Some (foldl fadd (or0 (acc' c)) (map monthlyCost (filter (\<lambda>s. category s = c) xs)))
      else acc' c)"
    using rest inv by (rule Cons.IH)
  also have "or0 (acc' c) = (if c = category x then w else or0 (acc c))"
    using w by (simp add: acc'_def or0_Some del: or0.simps)
  finally show ?case
    by (auto simp: acc'_def w_def none simp del: or0.simps)
qed

lemma due_iff: "due t s \<longleftrightarrow> (\<exists>d. renewalDate s = Some d \<and> d \<le> t)"
  by (simp add: due_def split: option.splits)

lemma upcoming_dates:
  assumes "ss = take n (sort_key renewalTime xs)" and "\<forall>s \<in> set xs. due t s"
  shows "set ss \<subseteq> set xs" and "map renewalDate ss = map Some (map renewalTime ss)"
    and "sorted (map renewalTime ss)"
    and "\<forall>s \<in> set xs. s \<notin> set ss \<longrightarrow> (\<forall>d \<in> set (map renewalTime ss). d \<le> renewalTime s)"
    and "length ss = min n (length xs)"
proof -
  let ?sorted = "sort_key renewalTime xs"
  show sub: "set ss \<subseteq> set xs"
    using assms(1) set_take_subset [of n ?sorted] by simp
  have some: "renewalDate s = Some (renewalTime s)" if "s \<in> set ss" for s
    using that sub assms(2) by (auto simp: due_def renewalTime_def split: option.splits)
  then show "map renewalDate ss = map Some (map renewalTime ss)" by simp
  have srt: "sorted (map renewalTime ?sorted)"
    by (rule sorted_sort_key)
  then have "sorted (take n (map renewalTime ?sorted))"
    by (rule sorted_wrt_take)
  then show "sorted (map renewalTime ss)"
    by (simp add: assms(1) take_map)
  have "sorted (map renewalTime (take n ?sorted @ drop n ?sorted))"
    using srt by simp
  then have le: "renewalTime a \<le> renewalTime b"
    if "a \<in> set (take n ?sorted)" and "b \<in> set (drop n ?sorted)" for a b
    using that unfolding map_append sorted_append by auto
  show "\<forall>s \<in> set xs. s \<notin> set ss \<longrightarrow> (\<forall>d \<in> set (map renewalTime ss). d \<le> renewalTime s)"
  proof (intro ballI impI)
    fix s d
    assume s: "s \<in> set xs" "s \<notin> set ss" and d: "d \<in> set (map renewalTime ss)"
    have "s \<in> set (take n ?sorted @ drop n ?sorted)"
      using s(1) by simp
    then have "s \<in> set (drop n ?sorted)"
      using s(2) assms(1) unfolding set_append by blast
    moreover from d obtain a where "a \<in> set (take n ?sorted)" "d = renewalTime a"
      using assms(1) by auto
    ultimately show "d \<le> renewalTime s"
      using le by simp
  qed
  show "length ss = min n (length xs)"
    by (simp add: assms(1) min.commute)
qed

lemma stats_db_active:
  "find_docs (\<lambda>s. user s = 7 \<and> isActive s) stats_db = take 9 stats_db"
  by (simp add: stats_db_def find_docs_def doc_def)


lemma findOneAndUpdate_Some:
  "findOne q db = Some d \<Longrightarrow>
     \<exists>k<length db. db ! k = d \<and> q d \<and> findOneAndUpdate q u db = (Some (u d), db[k := u d])"
proof (induction db)
  case Nil
  then show ?case by simp
next
  case (Cons x db)
  show ?case
  proof (cases "q x")
    case True
    with Cons.prems have "x = d" by simp
    with True show ?thesis by (intro exI [of _ 0]) simp
  next
    case False
    with Cons.prems have "findOne q db = Some d" by simp
    from Cons.IH [OF this] obtain k where "k < length db" "db ! k = d" "q d"
      "findOneAndUpdate q u db = (Some (u d), db[k := u d])" by blast
    with False show ?thesis by (intro exI [of _ "Suc k"]) simp
  qed
qed


section \<open>The monthly cost\<close>

text \<open>
  Claim C2: the derived monthly cost of a subscription is \<open>cost / 12\<close> when its billing
  cycle is yearly and \<open>cost\<close> otherwise, in the virtual field of the model and in the
  inline computations of the two reducers (the totals of the list and the category
  breakdown of the statistics).
\<close>

theorem monthlyCost_by_cycle:
  "monthlyCost s = (if billingCycle s = ''yearly'' then div12 (cost s) else cost s)
   \<and> totals_step acc s =
       \<lparr>monthly =
          fadd (monthly acc) (if billingCycle s = ''yearly'' then div12 (cost s) else cost s),
        yearly =
          fadd (yearly acc)
            (mul12 (if billingCycle s = ''yearly'' then div12 (cost s) else cost s))\<rparr>
   \<and> breakdown_step m s =
       m(category s \<mapsto>
         fadd (or0 (m (category s)))
           (if billingCycle s = ''yearly'' then div12 (cost s) else cost s))"
  by (simp add: monthlyCost_def totals_step_def breakdown_step_def Let_def)

text \<open>
  A yearly and a monthly document of cost 120, and a yearly one of cost 10, whose
  monthly cost is the double 0.8333333333333334.
\<close>

theorem monthlyCost_by_cycle_witness:
  "monthlyCost (doc 1 1 (Fin 120) ''yearly'') = Fin 10
   \<and> monthlyCost (doc 1 1 (Fin 120) ''monthly'') = Fin 120
   \<and> monthlyCost (doc 1 1 (Fin 10) ''yearly'') = Fin (7505999378950827 / 9007199254740992)
   \<and> totals_step \<lparr>monthly = Fin 1, yearly = Fin 12\<rparr> (doc 1 1 (Fin 120) ''yearly'') =
       \<lparr>monthly = Fin 11, yearly = Fin 132\<rparr>
   \<and> breakdown_step Map.empty (doc 1 1 (Fin 120) ''yearly'') ''other'' = Some (Fin 10)"
  using
    monthlyCost_by_cycle [of "doc 1 1 (Fin 120) ''yearly''" "\<lparr>monthly = Fin 1, yearly = Fin 12\<rparr>"
      Map.empty]
    monthlyCost_by_cycle [of "doc 1 1 (Fin 120) ''monthly''" "\<lparr>monthly = Fin 1, yearly = Fin 12\<rparr>"
      Map.empty]
    monthlyCost_by_cycle [of "doc 1 1 (Fin 10) ''yearly''" "\<lparr>monthly = Fin 1, yearly = Fin 12\<rparr>"
      Map.empty]
  by (simp add: doc_def rnd_evals)

section \<open>The totals of the list\<close>

text \<open>
  Claim C3 as the specification states it: for every list the accumulated yearly total
  is exactly twelve times the accumulated monthly total. It fails for two monthly
  subscriptions of cost 0.1 and 0.7: the monthly total is 0.7999999999999999, twelve
  times that is 9.6 (as a double, and 9.5999999999999992 exactly), and the yearly total
  is 9.599999999999998.
\<close>

theorem yearly_total_not_twelve_monthly:
  "tenths_db = [doc 1 7 d0_1 ''monthly'', doc 2 7 d0_7 ''monthly'']
   \<and> rnd (1 / 10) = d0_1 \<and> rnd (7 / 10) = d0_7
   \<and> monthly (foldl totals_step \<lparr>monthly = Fin 0, yearly = Fin 0\<rparr> tenths_db) =
       Fin (7205759403792793 / 9007199254740992)
   \<and> yearly (foldl totals_step \<lparr>monthly = Fin 0, yearly = Fin 0\<rparr> tenths_db) =
       Fin (2702159776422297 / 281474976710656)
   \<and> mul12 (monthly (foldl totals_step \<lparr>monthly = Fin 0, yearly = Fin 0\<rparr> tenths_db)) =
       Fin (5404319552844595 / 562949953421312)
   \<and> yearly (foldl totals_step \<lparr>monthly = Fin 0, yearly = Fin 0\<rparr> tenths_db) \<noteq>
       mul12 (monthly (foldl totals_step \<lparr>monthly = Fin 0, yearly = Fin 0\<rparr> tenths_db))
   \<and> (2702159776422297 / 281474976710656 :: rat) \<noteq>
       7205759403792793 / 9007199254740992 * 12
   \<and> get_subscriptions tenths_db 7 =
       (200, Subscriptions 2 tenths_db
               \<lparr>monthly = Fin (3602879701896397 / 4503599627370496),
                yearly = Fin (5404319552844595 / 562949953421312)\<rparr>)"
proof -
  have acc: "foldl totals_step \<lparr>monthly = Fin 0, yearly = Fin 0\<rparr> tenths_db =
     \<lparr>monthly = Fin (7205759403792793 / 9007199254740992),
      yearly = Fin (2702159776422297 / 281474976710656)\<rparr>"
    by (simp add: tenths_db_def doc_def totals_step_def Let_def d0_1_def d0_7_def rnd_evals)
  have listed: "sort_key (\<lambda>s. - createdAt s)
      (find_docs (\<lambda>s. user s = 7 \<and> isActive s) tenths_db) = tenths_db"
    by (simp add: tenths_db_def doc_def find_docs_def)
  have sent: "get_subscriptions tenths_db 7 =
       (200, Subscriptions 2 tenths_db
               \<lparr>monthly = Fin (3602879701896397 / 4503599627370496),
                yearly = Fin (5404319552844595 / 562949953421312)\<rparr>)"
    unfolding get_subscriptions_def Let_def listed acc
    by (simp add: tenths_db_def floor_rat_numeral rnd_evals)
  show ?thesis
    unfolding acc sent
    by (simp add: tenths_db_def decimal_doubles rnd_evals)
qed

text \<open>
  Claim C3 as amended: for every collection and caller, the list handler accumulates,
  in double arithmetic and in the order of the list, the monthly total as the sum of
  the monthly costs and the yearly total as the sum of twelve times each monthly cost
  (not as twelve times the monthly total, from which it can differ in the last bits).
  The response carries both totals rounded by \<^verbatim>\<open>toFixed(2)\<close>, and nothing is rounded
  to two decimals before: a finite total below \<open>10\<^sup>2\<^sup>1\<close> in absolute value is sent as
  the double nearest to \<open>n / 100\<close>, where \<open>n\<close> is the integer nearest to a hundred times
  its absolute value (the larger one of two), with its sign; any other total is sent as
  it is. The list of a monthly subscription of cost 12 and a yearly one of cost 120 has
  the totals 22 and 264.
\<close>

theorem list_totals:
  "(let subs = sort_key (\<lambda>s. - createdAt s) (find_docs (\<lambda>s. user s = userId \<and> isActive s) db);
        acc = foldl totals_step \<lparr>monthly = Fin 0, yearly = Fin 0\<rparr> subs
    in monthly acc = foldl fadd (Fin 0) (map monthlyCost subs)
       \<and> yearly acc = foldl fadd (Fin 0) (map (\<lambda>s. mul12 (monthlyCost s)) subs)
       \<and> get_subscriptions db userId =
           (200, Subscriptions (length subs) subs
                   \<lparr>monthly = toFixed2 (monthly acc), yearly = toFixed2 (yearly acc)\<rparr>))
   \<and> (\<forall>x n. \<bar>x\<bar> < 10 ^ 21 \<and> of_int n \<le> \<bar>x\<bar> * 100 + 1 / 2 \<and> \<bar>x\<bar> * 100 + 1 / 2 < of_int n + 1
         \<longrightarrow> toFixed2 (Fin x) = rnd (sgn x * of_int n / 100))
   \<and> (\<forall>x. 10 ^ 21 \<le> \<bar>x\<bar> \<longrightarrow> toFixed2 (Fin x) = Fin x)
   \<and> toFixed2 PosInf = PosInf \<and> toFixed2 NegInf = NegInf \<and> toFixed2 NaN = NaN
   \<and> get_subscriptions [doc 1 7 (Fin 12) ''monthly'', doc 2 7 (Fin 120) ''yearly''] 7 =
       (200, Subscriptions 2 [doc 1 7 (Fin 12) ''monthly'', doc 2 7 (Fin 120) ''yearly'']
               \<lparr>monthly = Fin 22, yearly = Fin 264\<rparr>)"
proof (intro conjI)
  show "let subs = sort_key (\<lambda>s. - createdAt s) (find_docs (\<lambda>s. user s = userId \<and> isActive s) db);
        acc = foldl totals_step \<lparr>monthly = Fin 0, yearly = Fin 0\<rparr> subs
    in monthly acc = foldl fadd (Fin 0) (map monthlyCost subs)
       \<and> yearly acc = foldl fadd (Fin 0) (map (\<lambda>s. mul12 (monthlyCost s)) subs)
       \<and> get_subscriptions db userId =
           (200, Subscriptions (length subs) subs
                   \<lparr>monthly = toFixed2 (monthly acc), yearly = toFixed2 (yearly acc)\<rparr>)"
    by (simp add: Let_def foldl_totals_step get_subscriptions_def)
  show "\<forall>x n. \<bar>x\<bar> < 10 ^ 21 \<and> of_int n \<le> \<bar>x\<bar> * 100 + 1 / 2 \<and> \<bar>x\<bar> * 100 + 1 / 2 < of_int n + 1
         \<longrightarrow> toFixed2 (Fin x) = rnd (sgn x * of_int n / 100)"
    using toFixed2_nearest by blast
  show "\<forall>x. 10 ^ 21 \<le> \<bar>x\<bar> \<longrightarrow> toFixed2 (Fin x) = Fin x"
    by simp
  show "get_subscriptions [doc 1 7 (Fin 12) ''monthly'', doc 2 7 (Fin 120) ''yearly''] 7 =
       (200, Subscriptions 2 [doc 1 7 (Fin 12) ''monthly'', doc 2 7 (Fin 120) ''yearly'']
               \<lparr>monthly = Fin 22, yearly = Fin 264\<rparr>)"
    by (simp add: get_subscriptions_def find_docs_def doc_def totals_step_def Let_def rnd_evals
      floor_rat_numeral)
qed simp_all

text \<open>
  User 7 has one yearly subscription of cost 119.94 beside an inactive one: the monthly
  total is the double 9.994999999999999, sent as 9.99, and the yearly total is sent as
  119.94. User 8 has one monthly subscription of cost 1.125, half way between two
  hundredths: it is sent as 1.13, and the yearly total as 13.5.
\<close>

theorem list_totals_witness:
  "get_subscriptions rounding_db 7 =
     (200, Subscriptions 1 [doc 3 7 d119_94 ''yearly'']
             \<lparr>monthly = Fin (5623870034678907 / 562949953421312), yearly = d119_94\<rparr>)
   \<and> rnd (999 / 100) = Fin (5623870034678907 / 562949953421312)
   \<and> get_subscriptions rounding_db 8 =
     (200, Subscriptions 1 [doc 4 8 (Fin (9 / 8)) ''monthly'']
             \<lparr>monthly = Fin (1272266894732165 / 1125899906842624), yearly = Fin (27 / 2)\<rparr>)
   \<and> rnd (113 / 100) = Fin (1272266894732165 / 1125899906842624)
   \<and> toFixed2 (Fin (9 / 8)) = rnd (113 / 100)"
proof -
  have seven: "sort_key (\<lambda>s. - createdAt s)
      (find_docs (\<lambda>s. user s = 7 \<and> isActive s) rounding_db) = [doc 3 7 d119_94 ''yearly'']"
    and eight: "sort_key (\<lambda>s. - createdAt s)
      (find_docs (\<lambda>s. user s = 8 \<and> isActive s) rounding_db) = [doc 4 8 (Fin (9 / 8)) ''monthly'']"
    by (simp_all add: rounding_db_def doc_def find_docs_def)
  have "\<forall>x n. \<bar>x\<bar> < 10 ^ 21 \<and> of_int n \<le> \<bar>x\<bar> * 100 + 1 / 2 \<and> \<bar>x\<bar> * 100 + 1 / 2 < of_int n + 1
         \<longrightarrow> toFixed2 (Fin x) = rnd (sgn x * of_int n / 100)"
    using list_totals [of 8 rounding_db] by (elim conjE) assumption
  from this [rule_format, of "9 / 8" 113]
  have nearest: "toFixed2 (Fin (9 / 8)) = rnd (113 / 100)"
    by simp
  from list_totals [of 7 rounding_db] list_totals [of 8 rounding_db] nearest
  show ?thesis
    unfolding Let_def seven eight
    by (simp add: doc_def totals_step_def d119_94_def floor_rat_numeral rnd_evals)
qed

section \<open>The statistics\<close>

text \<open>
  Claim C5: the category breakdown of the statistics maps a category to the sum of the
  monthly costs of the caller's active subscriptions of that category, added as doubles
  in the order of storage and sent unrounded, and a category with no such subscription
  is not a key of the mapping. The costs are those the schema accepts (\<^verbatim>\<open>min: 0\<close>): no
  sum of them is NaN, which \<^verbatim>\<open>acc[k] || 0\<close> would read as zero.
\<close>

theorem category_breakdown:
  assumes "\<forall>s \<in> set db. user s = userId \<and> isActive s \<longrightarrow> ge0 (cost s)"
  shows "\<exists>st. get_stats_overview db userId now = (200, Statistics st)
     \<and> (\<forall>c. categoryBreakdown st c =
          (let subs = filter (\<lambda>s. category s = c)
                        (find_docs (\<lambda>s. user s = userId \<and> isActive s) db)
           in if subs = [] then None
              else Some (foldl fadd (Fin 0) (map monthlyCost subs))))"
proof -
  define active where "active = find_docs (\<lambda>s. user s = userId \<and> isActive s) db"
  have fin: "\<forall>s \<in> set active. ge0 (monthlyCost s)"
    using assms by (auto simp: active_def find_docs_def intro: monthlyCost_ge0)
  have "foldl breakdown_step Map.empty active c =
      (if c \<in> category ` set active
       then Some (foldl fadd (or0 (Map.empty c))
              (map monthlyCost (filter (\<lambda>s. category s = c) active)))
       else Map.empty c)" for c
    using fin by (rule foldl_breakdown_step) simp
  then show ?thesis
    by (auto simp: get_stats_overview_def Let_def active_def [symmetric] filter_empty_conv)
qed

text \<open>
  User 7 of the example collection: the yearly costs 0.5, 8 and 2 of music add up to
  0.8749999999999999, the monthly costs 0.1, 0.2 and 0.3 of the category other to
  0.6000000000000001, the news to 23, and fitness, held by user 8 and by an inactive
  document only, is no key.
\<close>

theorem category_breakdown_witness:
  "\<exists>st. get_stats_overview stats_db 7 0 = (200, Statistics st)
     \<and> categoryBreakdown st ''music'' = Some (Fin (7881299347898367 / 9007199254740992))
     \<and> categoryBreakdown st ''other'' = Some (Fin (1351079888211149 / 2251799813685248))
     \<and> categoryBreakdown st ''news'' = Some (Fin 23)
     \<and> categoryBreakdown st ''fitness'' = None"
proof -
  have fin: "\<forall>s \<in> set stats_db. user s = 7 \<and> isActive s \<longrightarrow> ge0 (cost s)"
    by (simp add: stats_db_def doc_def d0_1_def d0_2_def d0_3_def)
  obtain st where r: "get_stats_overview stats_db 7 0 = (200, Statistics st)"
    and b: "\<And>c. categoryBreakdown st c =
          (let subs = filter (\<lambda>s. category s = c)
                        (find_docs (\<lambda>s. user s = 7 \<and> isActive s) stats_db)
           in if subs = [] then None
              else Some (foldl fadd (Fin 0) (map monthlyCost subs)))"
    using category_breakdown [OF fin, of 0] by blast
  have "categoryBreakdown st ''music'' = Some (Fin (7881299347898367 / 9007199254740992))
     \<and> categoryBreakdown st ''other'' = Some (Fin (1351079888211149 / 2251799813685248))
     \<and> categoryBreakdown st ''news'' = Some (Fin 23)
     \<and> categoryBreakdown st ''fitness'' = None"
    unfolding b stats_db_active
    by (simp add: stats_db_def doc_def monthlyCost_def d0_1_def d0_2_def d0_3_def rnd_evals)
  with r show ?thesis
    by (intro exI [of _ st]) simp
qed

text \<open>
  Claim C6: when the caller has no active subscription, the list answers 200 with the
  totals 0 and 0, and the statistics answer 200 with an empty breakdown and no upcoming
  renewal; neither answers with an error.
\<close>

theorem empty_set_results:
  assumes "find_docs (\<lambda>s. user s = userId \<and> isActive s) db = []"
  shows "get_subscriptions db userId =
       (200, Subscriptions 0 [] \<lparr>monthly = Fin 0, yearly = Fin 0\<rparr>)
     \<and> get_stats_overview db userId now =
         (200, Statistics \<lparr>totalSubscriptions = 0, categoryBreakdown = Map.empty,
                 upcomingRenewals = []\<rparr>)"
  using assms
  by (simp add: get_subscriptions_def get_stats_overview_def toFixed2_zero Let_def
      del: toFixed2.simps)

text \<open>User 9 owns nothing in the example collection.\<close>

theorem empty_set_results_witness:
  "find_docs (\<lambda>s. user s = 9 \<and> isActive s) stats_db = []
   \<and> get_subscriptions stats_db 9 =
       (200, Subscriptions 0 [] \<lparr>monthly = Fin 0, yearly = Fin 0\<rparr>)
   \<and> get_stats_overview stats_db 9 1000 =
         (200, Statistics \<lparr>totalSubscriptions = 0, categoryBreakdown = Map.empty,
                 upcomingRenewals = []\<rparr>)"
proof -
  have e: "find_docs (\<lambda>s. user s = 9 \<and> isActive s) stats_db = []"
    by (simp add: stats_db_def find_docs_def doc_def)
  show ?thesis
    using e empty_set_results [OF e, of 1000] by simp
qed

text \<open>
  Claim C4: the upcoming renewals of the statistics are the caller's active
  subscriptions that have a renewal date not later than thirty days after now, sorted
  by that date in ascending order, cut to the first five and projected to the fields
  id, name, renewalDate, cost and billingCycle. So the list has five entries, or all
  the due subscriptions when they are fewer; its dates ascend; and a due subscription
  that is left out has a date no earlier than any listed one. A subscription without a
  renewal date is none of them, yet it is counted in the number of subscriptions, its
  category is a key of the breakdown (with the sum over all the active subscriptions
  of the category, for costs that the schema accepts), and the totals of the list are
  summed over all the active subscriptions.
\<close>

theorem upcoming_renewals:
  "let active = find_docs (\<lambda>s. user s = userId \<and> isActive s) db;
       horizon = now + 30 * 24 * 60 * 60 * 1000;
       due_subs = filter (\<lambda>s. \<exists>d. renewalDate s = Some d \<and> d \<le> horizon) active
   in \<exists>st ss ds. get_stats_overview db userId now = (200, Statistics st)
     \<and> upcomingRenewals st =
          map (\<lambda>s. \<lparr>r_id = ident s, r_name = name s, r_renewalDate = renewalDate s,
                     r_cost = cost s, r_billingCycle = billingCycle s\<rparr>) ss
     \<and> ss = take 5 (sort_key renewalTime due_subs)
     \<and> length ss = min 5 (length due_subs)
     \<and> set ss \<subseteq> set due_subs
     \<and> map renewalDate ss = map Some ds
     \<and> sorted ds
     \<and> (\<forall>s \<in> set due_subs. s \<notin> set ss \<longrightarrow> (\<forall>d \<in> set ds. d \<le> renewalTime s))
     \<and> totalSubscriptions st = length active
     \<and> (\<forall>s \<in> set active. renewalDate s = None \<longrightarrow>
          s \<notin> set ss
          \<and> category s \<in> dom (categoryBreakdown st)
          \<and> ((\<forall>x \<in> set active. ge0 (cost x)) \<longrightarrow>
               categoryBreakdown st (category s) =
                 Some (foldl fadd (Fin 0)
                   (map monthlyCost (filter (\<lambda>x. category x = category s) active)))))
     \<and> (\<exists>subs. set subs = set active \<and> length subs = length active
          \<and> get_subscriptions db userId =
              (200, Subscriptions (length subs) subs
                 \<lparr>monthly = toFixed2 (foldl fadd (Fin 0) (map monthlyCost subs)),
                  yearly =
                    toFixed2 (foldl fadd (Fin 0) (map (\<lambda>s. mul12 (monthlyCost s)) subs))\<rparr>))"
proof -
  define active where "active = find_docs (\<lambda>s. user s = userId \<and> isActive s) db"
  define t where "t = now + 30 * 24 * 60 * 60 * 1000"
  define due_subs where
    "due_subs = filter (\<lambda>s. \<exists>d. renewalDate s = Some d \<and> d \<le> t) active"
  define ss where "ss = take 5 (sort_key renewalTime due_subs)"
  define st where "st = \<lparr>totalSubscriptions = length active,
      categoryBreakdown = foldl breakdown_step Map.empty active,
      upcomingRenewals = map project ss\<rparr>"
  define subs where "subs = sort_key (\<lambda>s. - createdAt s) active"
  have due_subs: "due_subs = filter (due t) active"
    unfolding due_subs_def by (rule filter_cong [OF refl]) (simp add: due_iff)
  have resp: "get_stats_overview db userId now = (200, Statistics st)"
    by (simp add: get_stats_overview_def Let_def st_def ss_def t_def active_def due_subs)
  have all_due: "\<forall>s \<in> set due_subs. due t s"
    by (simp add: due_subs)
  note facts = upcoming_dates [OF ss_def all_due]
  have dated: "renewalDate x \<noteq> None" if "x \<in> set ss" for x
  proof -
    have "renewalDate x \<in> set (map renewalDate ss)" using that by simp
    then show ?thesis unfolding facts(2) by auto
  qed
  have lacking: "s \<notin> set ss
          \<and> category s \<in> dom (categoryBreakdown st)
          \<and> ((\<forall>x \<in> set active. ge0 (cost x)) \<longrightarrow>
               categoryBreakdown st (category s) =
                 Some (foldl fadd (Fin 0)
                   (map monthlyCost (filter (\<lambda>x. category x = category s) active))))"
    if "s \<in> set active" and "renewalDate s = None" for s
  proof (intro conjI impI)
    from dated [of s] show "s \<notin> set ss"
      using that(2) by blast
    show "category s \<in> dom (categoryBreakdown st)"
      using that(1) by (simp add: st_def dom_foldl_breakdown_step)
    assume "\<forall>x \<in> set active. ge0 (cost x)"
    then have fin: "\<forall>s \<in> set active. ge0 (monthlyCost s)"
      by (auto intro: monthlyCost_ge0)
    have "foldl breakdown_step Map.empty active (category s) =
      (if category s \<in> category ` set active
       then Some (foldl fadd (or0 (Map.empty (category s)))
              (map monthlyCost (filter (\<lambda>x. category x = category s) active)))
       else Map.empty (category s))"
      using fin by (rule foldl_breakdown_step) simp
    then show "categoryBreakdown st (category s) =
        Some (foldl fadd (Fin 0)
          (map monthlyCost (filter (\<lambda>x. category x = category s) active)))"
      using that(1) by (simp add: st_def)
  qed
  have "\<exists>st ss ds. get_stats_overview db userId now = (200, Statistics st)
     \<and> upcomingRenewals st =
          map (\<lambda>s. \<lparr>r_id = ident s, r_name = name s, r_renewalDate = renewalDate s,
                     r_cost = cost s, r_billingCycle = billingCycle s\<rparr>) ss
     \<and> ss = take 5 (sort_key renewalTime due_subs)
     \<and> length ss = min 5 (length due_subs)
     \<and> set ss \<subseteq> set due_subs
     \<and> map renewalDate ss = map Some ds
     \<and> sorted ds
     \<and> (\<forall>s \<in> set due_subs. s \<notin> set ss \<longrightarrow> (\<forall>d \<in> set ds. d \<le> renewalTime s))
     \<and> totalSubscriptions st = length active
     \<and> (\<forall>s \<in> set active. renewalDate s = None \<longrightarrow>
          s \<notin> set ss
          \<and> category s \<in> dom (categoryBreakdown st)
          \<and> ((\<forall>x \<in> set active. ge0 (cost x)) \<longrightarrow>
               categoryBreakdown st (category s) =
                 Some (foldl fadd (Fin 0)
                   (map monthlyCost (filter (\<lambda>x. category x = category s) active)))))
     \<and> (\<exists>subs. set subs = set active \<and> length subs = length active
          \<and> get_subscriptions db userId =
              (200, Subscriptions (length subs) subs
                 \<lparr>monthly = toFixed2 (foldl fadd (Fin 0) (map monthlyCost subs)),
                  yearly =
                    toFixed2 (foldl fadd (Fin 0) (map (\<lambda>s. mul12 (monthlyCost s)) subs))\<rparr>))"
  proof (intro exI conjI)
    show "get_stats_overview db userId now = (200, Statistics st)" by (rule resp)
    show "upcomingRenewals st =
            map (\<lambda>s. \<lparr>r_id = ident s, r_name = name s, r_renewalDate = renewalDate s,
                       r_cost = cost s, r_billingCycle = billingCycle s\<rparr>) ss"
      by (simp add: st_def project_def)
    show "ss = take 5 (sort_key renewalTime due_subs)" by (rule ss_def)
    show "length ss = min 5 (length due_subs)" by (rule facts(5))
    show "set ss \<subseteq> set due_subs" by (rule facts(1))
    show "map renewalDate ss = map Some (map renewalTime ss)" by (rule facts(2))
    show "sorted (map renewalTime ss)" by (rule facts(3))
    show "\<forall>s \<in> set due_subs. s \<notin> set ss \<longrightarrow>
        (\<forall>d \<in> set (map renewalTime ss). d \<le> renewalTime s)"
      by (rule facts(4))
    show "totalSubscriptions st = length active" by (simp add: st_def)
    show "\<forall>s \<in> set active. renewalDate s = None \<longrightarrow>
          s \<notin> set ss
          \<and> category s \<in> dom (categoryBreakdown st)
          \<and> ((\<forall>x \<in> set active. ge0 (cost x)) \<longrightarrow>
               categoryBreakdown st (category s) =
                 Some (foldl fadd (Fin 0)
                   (map monthlyCost (filter (\<lambda>x. category x = category s) active))))"
      using lacking by blast
    show "set subs = set active" by (simp add: subs_def)
    show "length subs = length active" by (simp add: subs_def)
    show "get_subscriptions db userId =
        (200, Subscriptions (length subs) subs
           \<lparr>monthly = toFixed2 (foldl fadd (Fin 0) (map monthlyCost subs)),
            yearly = toFixed2 (foldl fadd (Fin 0) (map (\<lambda>s. mul12 (monthlyCost s)) subs))\<rparr>)"
      by (simp add: get_subscriptions_def Let_def foldl_totals_step subs_def active_def)
  qed
  then show ?thesis
    by (simp add: Let_def active_def t_def due_subs_def)
qed

text \<open>
  The example collection at two times. At \<open>now = 1000\<close> seven documents of user 7 are
  due (the one dated a millisecond after the horizon 2592001000 is not): the five
  earliest are listed in the order of their dates, the first of them dated before now.
  At \<open>now = -2591993000\<close> the horizon is 7000: the document dated 7000 is the last of
  the four listed, and the one dated 7001 is left out. Document 12 has no renewal date
  and is in the count of nine and in the sum of its category.
\<close>

theorem upcoming_renewals_witness:
  "(\<exists>st. get_stats_overview stats_db 7 1000 = (200, Statistics st)
     \<and> map r_id (upcomingRenewals st) = [15, 17, 11, 13, 16]
     \<and> map r_renewalDate (upcomingRenewals st) =
         [Some 500, Some 5000, Some 6000, Some 7000, Some 7001]
     \<and> totalSubscriptions st = 9
     \<and> categoryBreakdown st ''music'' = Some (Fin (7881299347898367 / 9007199254740992)))
   \<and> (\<exists>st. get_stats_overview stats_db 7 (- 2591993000) = (200, Statistics st)
     \<and> map r_id (upcomingRenewals st) = [15, 17, 11, 13]
     \<and> map r_renewalDate (upcomingRenewals st) = [Some 500, Some 5000, Some 6000, Some 7000])"
proof -
  define active where "active = find_docs (\<lambda>s. user s = 7 \<and> isActive s) stats_db"
  have active: "active = take 9 stats_db"
    unfolding active_def by (rule stats_db_active)
  have fin: "\<forall>x \<in> set active. ge0 (cost x)"
    by (simp add: active stats_db_def doc_def d0_1_def d0_2_def d0_3_def)
  define s2 where "s2 = (doc 12 7 (Fin 8) ''yearly'')\<lparr>category := ''music''\<rparr>"
  have s2: "s2 \<in> set active" "renewalDate s2 = None" "category s2 = ''music''"
    by (simp_all add: active stats_db_def s2_def doc_def)
  have first: "\<exists>st. get_stats_overview stats_db 7 1000 = (200, Statistics st)
     \<and> map r_id (upcomingRenewals st) = [15, 17, 11, 13, 16]
     \<and> map r_renewalDate (upcomingRenewals st) =
         [Some 500, Some 5000, Some 6000, Some 7000, Some 7001]
     \<and> totalSubscriptions st = 9
     \<and> categoryBreakdown st ''music'' = Some (Fin (7881299347898367 / 9007199254740992))"
  proof -
    obtain st ss ds where r: "get_stats_overview stats_db 7 1000 = (200, Statistics st)"
      and u: "upcomingRenewals st =
          map (\<lambda>s. \<lparr>r_id = ident s, r_name = name s, r_renewalDate = renewalDate s,
                     r_cost = cost s, r_billingCycle = billingCycle s\<rparr>) ss"
      and ss: "ss = take 5 (sort_key renewalTime
          (filter (\<lambda>s. \<exists>d. renewalDate s = Some d \<and> d \<le> 1000 + 30 * 24 * 60 * 60 * 1000) active))"
      and n: "totalSubscriptions st = length active"
      and b: "\<forall>s \<in> set active. renewalDate s = None \<longrightarrow>
          s \<notin> set ss
          \<and> category s \<in> dom (categoryBreakdown st)
          \<and> ((\<forall>x \<in> set active. ge0 (cost x)) \<longrightarrow>
               categoryBreakdown st (category s) =
                 Some (foldl fadd (Fin 0)
                   (map monthlyCost (filter (\<lambda>x. category x = category s) active))))"
      using upcoming_renewals [of 7 stats_db 1000] unfolding Let_def active_def by blast
    from b s2 fin have "categoryBreakdown st ''music'' =
        Some (foldl fadd (Fin 0) (map monthlyCost (filter (\<lambda>x. category x = ''music'') active)))"
      by fastforce
    also have "\<dots> = Some (Fin (7881299347898367 / 9007199254740992))"
      by (simp add: active stats_db_def doc_def monthlyCost_def rnd_evals)
    finally have music:
      "categoryBreakdown st ''music'' = Some (Fin (7881299347898367 / 9007199254740992))" .
    have total: "totalSubscriptions st = 9"
      using n by (simp add: active stats_db_def)
    have "ss =
       [(doc 15 7 d0_2 ''monthly'')\<lparr>renewalDate := Some 500\<rparr>,
        (doc 17 7 (Fin 12) ''monthly'')\<lparr>category := ''news'', renewalDate := Some 5000\<rparr>,
        (doc 11 7 (Fin (1 / 2)) ''yearly'')\<lparr>category := ''music'', renewalDate := Some 6000\<rparr>,
        (doc 13 7 (Fin 2) ''yearly'')\<lparr>category := ''music'', renewalDate := Some 7000\<rparr>,
        (doc 16 7 d0_3 ''monthly'')\<lparr>renewalDate := Some 7001\<rparr>]"
      unfolding ss active by (simp add: stats_db_def doc_def renewalTime_def)
    then have "map r_id (upcomingRenewals st) = [15, 17, 11, 13, 16]
       \<and> map r_renewalDate (upcomingRenewals st) =
           [Some 500, Some 5000, Some 6000, Some 7000, Some 7001]"
      unfolding u by (simp add: doc_def)
    with r music total show ?thesis
      by (intro exI [of _ st]) simp
  qed
  have second: "\<exists>st. get_stats_overview stats_db 7 (- 2591993000) = (200, Statistics st)
     \<and> map r_id (upcomingRenewals st) = [15, 17, 11, 13]
     \<and> map r_renewalDate (upcomingRenewals st) = [Some 500, Some 5000, Some 6000, Some 7000]"
  proof -
    obtain st ss ds where r: "get_stats_overview stats_db 7 (- 2591993000) = (200, Statistics st)"
      and u: "upcomingRenewals st =
          map (\<lambda>s. \<lparr>r_id = ident s, r_name = name s, r_renewalDate = renewalDate s,
                     r_cost = cost s, r_billingCycle = billingCycle s\<rparr>) ss"
      and ss: "ss = take 5 (sort_key renewalTime
          (filter (\<lambda>s. \<exists>d. renewalDate s = Some d \<and> d \<le> - 2591993000 + 30 * 24 * 60 * 60 * 1000)
            active))"
      using upcoming_renewals [of 7 stats_db "- 2591993000"] unfolding Let_def active_def by blast
    have "ss =
       [(doc 15 7 d0_2 ''monthly'')\<lparr>renewalDate := Some 500\<rparr>,
        (doc 17 7 (Fin 12) ''monthly'')\<lparr>category := ''news'', renewalDate := Some 5000\<rparr>,
        (doc 11 7 (Fin (1 / 2)) ''yearly'')\<lparr>category := ''music'', renewalDate := Some 6000\<rparr>,
        (doc 13 7 (Fin 2) ''yearly'')\<lparr>category := ''music'', renewalDate := Some 7000\<rparr>]"
      unfolding ss active by (simp add: stats_db_def doc_def renewalTime_def)
    then have "map r_id (upcomingRenewals st) = [15, 17, 11, 13]
       \<and> map r_renewalDate (upcomingRenewals st) = [Some 500, Some 5000, Some 6000, Some 7000]"
      unfolding u by (simp add: doc_def)
    with r show ?thesis
      by (intro exI [of _ st]) simp
  qed
  from first second show ?thesis ..
qed

section \<open>Validation of a new subscription\<close>

text \<open>
  Claim C7: a create request whose cost is negative (\<open>-1\<close>, say) is answered with 400
  and an \<open>errors\<close> array that holds a validation error of the field \<open>cost\<close>, and the
  collection is left as it was: no subscription is created.
\<close>

theorem negative_cost_rejected:
  assumes "b_cost b = Some (Fin c)" and "c < 0"
  shows "\<exists>errors. post_subscription db userId b oid t0 t1 = ((400, Invalid errors), db)
     \<and> \<lparr>path = ''cost'', msg = ''Cost must be a positive number''\<rparr> \<in> set errors"
  using assms by (simp add: post_subscription_def post_checks_def Let_def)

text \<open>The README's request with the cost \<open>-1\<close>: the cost error is the only one.\<close>

theorem negative_cost_rejected_witness:
  "b_cost (netflix_body\<lparr>b_cost := Some (Fin (- 1))\<rparr>) = Some (Fin (- 1)) \<and> (- 1 :: rat) < 0
   \<and> post_subscription stats_db 7 (netflix_body\<lparr>b_cost := Some (Fin (- 1))\<rparr>) 22 400 500 =
       ((400, Invalid [\<lparr>path = ''cost'', msg = ''Cost must be a positive number''\<rparr>]), stats_db)"
proof -
  have c: "b_cost (netflix_body\<lparr>b_cost := Some (Fin (- 1))\<rparr>) = Some (Fin (- 1))" and n: "(- 1 :: rat) < 0"
    by simp_all
  obtain errors where r: "post_subscription stats_db 7 (netflix_body\<lparr>b_cost := Some (Fin (- 1))\<rparr>) 22 400 500
      = ((400, Invalid errors), stats_db)"
    using negative_cost_rejected [OF c n, of stats_db 7 22 400 500] by blast
  have "fst (post_checks (netflix_body\<lparr>b_cost := Some (Fin (- 1))\<rparr>)) =
      [\<lparr>path = ''cost'', msg = ''Cost must be a positive number''\<rparr>]"
    by (simp add: post_checks_def netflix_body_def empty_body_def trim_def isWhitespace_def
        billingCycles_def categories_def)
  then have "errors = [\<lparr>path = ''cost'', msg = ''Cost must be a positive number''\<rparr>]"
    using r by (simp add: post_subscription_def split: prod.splits)
  with r c n show ?thesis by simp
qed

section \<open>Fetching one subscription\<close>

text \<open>
  Claim C8: when every document with the requested id belongs to another user, the
  response is 404 with the message \<open>Subscription not found\<close>, and it is the very response
  the same request gets from the collection without any document of that id: it does not
  tell whether the id exists under another user.
\<close>

theorem foreign_id_not_found:
  assumes "\<forall>s \<in> set db. ident s = i \<longrightarrow> user s \<noteq> userId"
  shows "get_subscription db userId i = (404, Failure ''Subscription not found'')
     \<and> get_subscription db userId i = get_subscription (filter (\<lambda>s. ident s \<noteq> i) db) userId i"
proof -
  have none: "findOne (\<lambda>s. ident s = i \<and> user s = userId) xs = None"
    if "\<forall>s \<in> set xs. ident s = i \<longrightarrow> user s \<noteq> userId" for xs
    using that by (induction xs) auto
  have "findOne (\<lambda>s. ident s = i \<and> user s = userId) db = None"
    using assms by (rule none)
  moreover have "findOne (\<lambda>s. ident s = i \<and> user s = userId) (filter (\<lambda>s. ident s \<noteq> i) db) = None"
    by (rule none) simp
  ultimately show ?thesis
    by (simp add: get_subscription_def)
qed

text \<open>
  Document 20 of the example collection belongs to user 8: user 7 gets the response of
  a collection that lacks it, while user 8 gets the document.
\<close>

theorem foreign_id_not_found_witness:
  "filter (\<lambda>s. ident s = 20 \<and> user s = 7) stats_db = []
   \<and> get_subscription stats_db 7 20 = (404, Failure ''Subscription not found'')
   \<and> get_subscription (take 9 stats_db @ drop 10 stats_db) 7 20 =
       (404, Failure ''Subscription not found'')
   \<and> get_subscription stats_db 8 20 \<noteq> (404, Failure ''Subscription not found'')"
proof -
  have e: "filter (\<lambda>s. ident s = 20 \<and> user s = 7) stats_db = []"
    by (simp add: stats_db_def doc_def)
  then have h: "\<forall>s \<in> set stats_db. ident s = 20 \<longrightarrow> user s \<noteq> 7"
    by (simp add: filter_empty_conv)
  have f: "filter (\<lambda>s. ident s \<noteq> 20) stats_db = take 9 stats_db @ drop 10 stats_db"
    by (simp add: stats_db_def doc_def)
  have o: "get_subscription stats_db 8 20 \<noteq> (404, Failure ''Subscription not found'')"
    by (simp add: get_subscription_def stats_db_def doc_def)
  have a: "get_subscription stats_db 7 20 = (404, Failure ''Subscription not found'')"
    and b: "get_subscription stats_db 7 20 =
      get_subscription (filter (\<lambda>s. ident s \<noteq> 20) stats_db) 7 20"
    using foreign_id_not_found [OF h] by blast+
  from b have "get_subscription (take 9 stats_db @ drop 10 stats_db) 7 20 =
      (404, Failure ''Subscription not found'')"
    unfolding f a by (rule sym)
  with e a o show ?thesis by blast
qed

section \<open>Soft deletion\<close>

text \<open>
  The list and the statistics are computed from the caller's active documents only, and
  a deletion keeps every document of the collection, with its identifier and owner.
\<close>

lemma listed_only_active:
  "\<exists>subs tot st. get_subscriptions db userId = (200, Subscriptions (length subs) subs tot)
     \<and> get_stats_overview db userId now = (200, Statistics st)
     \<and> set subs = {s \<in> set db. user s = userId \<and> isActive s}
     \<and> totalSubscriptions st = length subs
     \<and> dom (categoryBreakdown st) = category ` set subs
     \<and> (\<forall>e \<in> set (upcomingRenewals st). e \<in> project ` set subs)"
proof -
  define active where "active = find_docs (\<lambda>s. user s = userId \<and> isActive s) db"
  define subs where "subs = sort_key (\<lambda>s. - createdAt s) active"
  define st where "st = \<lparr>totalSubscriptions = length active,
      categoryBreakdown = foldl breakdown_step Map.empty active,
      upcomingRenewals = map project (take 5 (sort_key renewalTime
        (filter (due (now + 30 * 24 * 60 * 60 * 1000)) active)))\<rparr>"
  have sub: "set (take 5 (sort_key renewalTime (filter (due t) active))) \<subseteq> set subs" for t
    using set_take_subset [of 5 "sort_key renewalTime (filter (due t) active)"]
    by (auto simp: subs_def)
  have "\<exists>tot. get_subscriptions db userId = (200, Subscriptions (length subs) subs tot)"
    by (simp add: get_subscriptions_def Let_def subs_def active_def)
  moreover have "get_stats_overview db userId now = (200, Statistics st)"
    by (simp add: get_stats_overview_def Let_def st_def active_def)
  moreover have "set subs = {s \<in> set db. user s = userId \<and> isActive s}"
    by (auto simp: subs_def active_def find_docs_def)
  moreover have "totalSubscriptions st = length subs"
    by (simp add: st_def subs_def)
  moreover have "dom (categoryBreakdown st) = category ` set subs"
    by (simp add: st_def subs_def dom_foldl_breakdown_step)
  moreover have "\<forall>e \<in> set (upcomingRenewals st). e \<in> project ` set subs"
    using sub by (auto simp: st_def)
  ultimately show ?thesis by blast
qed

lemma delete_keeps_documents:
  "delete_subscription db userId i now = (r, db') \<Longrightarrow>
     length db' = length db \<and> map ident db' = map ident db \<and> map user db' = map user db"
proof -
  have "map ident (snd (findOneAndUpdate q (\<lambda>d. d\<lparr>isActive := False, updatedAt := now\<rparr>) xs)) = map ident xs
     \<and> map user (snd (findOneAndUpdate q (\<lambda>d. d\<lparr>isActive := False, updatedAt := now\<rparr>) xs)) = map user xs"
    for q and xs :: collection
    by (induction xs) (auto split: prod.splits)
  from this [of "\<lambda>s. ident s = i \<and> user s = userId" db]
  show "delete_subscription db userId i now = (r, db') \<Longrightarrow>
     length db' = length db \<and> map ident db' = map ident db \<and> map user db' = map user db"
    by (auto simp: delete_subscription_def split: prod.splits option.splits dest: map_eq_imp_length_eq)
qed


text \<open>
  Claim C1, on the single-get route: a subscription with \<open>isActive = false\<close> should not
  appear in the response of \<^verbatim>\<open>GET /api/subscriptions/:id\<close>. The query of that route has
  no condition on \<open>isActive\<close>: after a successful deletion the document is kept, it is
  absent from the list, and the single-get route still answers 200 with it.
\<close>

theorem soft_deleted_fetched_by_id:
  "delete_subscription [doc 11 7 (Fin 12) ''monthly''] 7 11 700 =
     ((200, Message ''Subscription deleted successfully''),
      [(doc 11 7 (Fin 12) ''monthly'')\<lparr>isActive := False, updatedAt := 700\<rparr>])
   \<and> get_subscription [(doc 11 7 (Fin 12) ''monthly'')\<lparr>isActive := False, updatedAt := 700\<rparr>] 7 11 =
     (200, OneSubscription ((doc 11 7 (Fin 12) ''monthly'')\<lparr>isActive := False, updatedAt := 700\<rparr>))
   \<and> get_subscriptions [(doc 11 7 (Fin 12) ''monthly'')\<lparr>isActive := False, updatedAt := 700\<rparr>] 7 =
     (200, Subscriptions 0 [] \<lparr>monthly = Fin 0, yearly = Fin 0\<rparr>)"
  by (simp add: delete_subscription_def get_subscription_def get_subscriptions_def find_docs_def
      doc_def toFixed2_zero del: toFixed2.simps)


section \<open>Writes and the time of the last update\<close>





text \<open>
  Claim C10: an update that passes the validation chains of the route and the update
  validators of the schema, for a document matched by id and owner whatever its
  \<open>isActive\<close>, answers 200 and writes every field present in the body, also \<open>user\<close>,
  \<open>isActive\<close> and \<open>createdAt\<close> that no chain validates (the name as sanitized by
  \<^verbatim>\<open>trim()\<close>); the absent fields keep their values. Hence an update can reactivate a
  soft-deleted subscription and give it to another owner.
\<close>

theorem put_writes_present_fields:
  assumes "findOne (\<lambda>s. ident s = i \<and> user s = userId) db = Some d"
    and "fst (put_checks b) = []"
    and "validate_update (snd (put_checks b))"
  shows "\<exists>k d'. k < length db \<and> db ! k = d
     \<and> put_subscription db userId i b now =
         ((200, Saved ''Subscription updated successfully'' d'), db[k := d'])
     \<and> ident d' = ident d
     \<and> user d' = (case b_user b of None \<Rightarrow> user d | Some v \<Rightarrow> v)
     \<and> name d' = (case b_name b of None \<Rightarrow> name d | Some v \<Rightarrow> trim v)
     \<and> cost d' = (case b_cost b of None \<Rightarrow> cost d | Some v \<Rightarrow> v)
     \<and> billingCycle d' = (case b_billingCycle b of None \<Rightarrow> billingCycle d | Some v \<Rightarrow> v)
     \<and> renewalDate d' = (case b_renewalDate b of None \<Rightarrow> renewalDate d | Some v \<Rightarrow> Some v)
     \<and> category d' = (case b_category b of None \<Rightarrow> category d | Some v \<Rightarrow> v)
     \<and> color d' = (case b_color b of None \<Rightarrow> color d | Some v \<Rightarrow> v)
     \<and> isActive d' = (case b_isActive b of None \<Rightarrow> isActive d | Some v \<Rightarrow> v)
     \<and> notes' d' = (case b_notes b of None \<Rightarrow> notes' d | Some v \<Rightarrow> Some v)
     \<and> createdAt d' = (case b_createdAt b of None \<Rightarrow> createdAt d | Some v \<Rightarrow> v)
     \<and> updatedAt d' = now"
proof -
  define b' where "b' = snd (put_checks b)"
  define u where "u = apply_update (b'\<lparr>b_updatedAt := Some now\<rparr>)"
  have checks: "put_checks b = ([], b')"
    using assms(2) by (simp add: b'_def prod_eq_iff)
  have b': "b' = b\<lparr>b_name := map_option trim (b_name b)\<rparr>"
    by (simp add: b'_def put_checks_def Let_def)
  from findOneAndUpdate_Some [OF assms(1), of u]
  obtain k where k: "k < length db" "db ! k = d"
    and upd: "findOneAndUpdate (\<lambda>s. ident s = i \<and> user s = userId) u db = (Some (u d), db[k := u d])"
    by blast
  have resp: "put_subscription db userId i b now =
      ((200, Saved ''Subscription updated successfully'' (u d)), db[k := u d])"
    using assms(3) upd by (simp add: put_subscription_def checks b'_def [symmetric] u_def [symmetric])
  have fields: "ident (u d) = ident d
     \<and> user (u d) = (case b_user b of None \<Rightarrow> user d | Some v \<Rightarrow> v)
     \<and> name (u d) = (case b_name b of None \<Rightarrow> name d | Some v \<Rightarrow> trim v)
     \<and> cost (u d) = (case b_cost b of None \<Rightarrow> cost d | Some v \<Rightarrow> v)
     \<and> billingCycle (u d) = (case b_billingCycle b of None \<Rightarrow> billingCycle d | Some v \<Rightarrow> v)
     \<and> renewalDate (u d) = (case b_renewalDate b of None \<Rightarrow> renewalDate d | Some v \<Rightarrow> Some v)
     \<and> category (u d) = (case b_category b of None \<Rightarrow> category d | Some v \<Rightarrow> v)
     \<and> color (u d) = (case b_color b of None \<Rightarrow> color d | Some v \<Rightarrow> v)
     \<and> isActive (u d) = (case b_isActive b of None \<Rightarrow> isActive d | Some v \<Rightarrow> v)
     \<and> notes' (u d) = (case b_notes b of None \<Rightarrow> notes' d | Some v \<Rightarrow> Some v)
     \<and> createdAt (u d) = (case b_createdAt b of None \<Rightarrow> createdAt d | Some v \<Rightarrow> v)
     \<and> updatedAt (u d) = now"
    by (simp add: u_def b' apply_update_def split: option.splits)
  from k resp fields show ?thesis
    by (intro exI [of _ k] exI [of _ "u d"]) simp
qed

text \<open>
  An update of a soft-deleted document of user 7 with \<open>isActive = true\<close>, \<open>user = 8\<close> and
  \<open>createdAt = 5\<close>: the stored document is active again and belongs to user 8.
\<close>

theorem put_writes_present_fields_witness:
  "put_subscription [(doc 11 7 (Fin 12) ''monthly'')\<lparr>isActive := False\<rparr>] 7 11
      (empty_body\<lparr>b_isActive := Some True, b_user := Some 8, b_createdAt := Some 5\<rparr>) 600 =
     ((200, Saved ''Subscription updated successfully''
         ((doc 11 8 (Fin 12) ''monthly'')\<lparr>createdAt := 5, updatedAt := 600\<rparr>)),
      [(doc 11 8 (Fin 12) ''monthly'')\<lparr>createdAt := 5, updatedAt := 600\<rparr>])"
proof -
  define b where "b = empty_body\<lparr>b_isActive := Some True, b_user := Some 8, b_createdAt := Some 5\<rparr>"
  define d where "d = (doc 11 7 (Fin 12) ''monthly'')\<lparr>isActive := False\<rparr>"
  have 1: "findOne (\<lambda>s. ident s = 11 \<and> user s = 7) [d] = Some d"
    by (simp add: d_def doc_def)
  have 2: "fst (put_checks b) = []"
    by (simp add: put_checks_def b_def empty_body_def)
  have 3: "validate_update (snd (put_checks b))"
    by (simp add: put_checks_def validate_update_def b_def empty_body_def)
  from put_writes_present_fields [OF 1 2 3, of 600]
  obtain k d' where "k < length [d]"
    and r: "put_subscription [d] 7 11 b 600 =
         ((200, Saved ''Subscription updated successfully'' d'), [d][k := d'])"
    by blast
  then have "k = 0" by simp
  have "d' = (doc 11 8 (Fin 12) ''monthly'')\<lparr>createdAt := 5, updatedAt := 600\<rparr>"
    using r by (simp add: put_subscription_def put_checks_def validate_update_def b_def d_def
        empty_body_def apply_update_def doc_def)
  with r \<open>k = 0\<close> show ?thesis
    by (simp add: b_def d_def)
qed

end
